theory Spec2Isabelle
  imports Complex_Main "HOL-Library.AList"
begin

section \<open>The promoteur-v1 feasibility engine\<close>

text \<open>
  The development is a shallow embedding of the edge function \<^verbatim>\<open>promoteur-v1\<close>
  (imports, configuration, helpers, the four computations and the HTTP handler).

  Numbers: a JavaScript number of the program is modelled by an exact rational. The
  values NaN and the infinities are not members of the type: the only place where the
  source can meet them on finite inputs is the result of \<^verbatim>\<open>Number(value)\<close>, and
  there the model has \<open>None\<close>; every division of the source is behind a test that
  the divisor is not zero. Arithmetic is exact, so double rounding and overflow are not
  modelled.

  Values: request bodies and stored rows are JSON. TypeScript types are erased when the
  program runs, so leaves that the interfaces declare as numbers are kept as JSON values
  and \<open>safeNumber\<close> makes numbers of them, as in the source. Objects are association
  lists of their own properties, in insertion order.
\<close>

subsection \<open>JSON values\<close>

datatype json =
    JNull
  | JBool bool
  | JNum rat
  | JStr string
  | JArr "json list"
  | JObj "(string \<times> json) list"

type_synonym jobject = "(string \<times> json) list"

text \<open>
  \<open>coercion\<close> stands for the built-in \<^verbatim>\<open>Number\<close> on a string or an array: the
  finite number it yields, or \<open>None\<close> when it yields NaN or an infinity. The built-in
  is not code of the repository; every function that reaches it takes it as a parameter.
\<close>

type_synonym coercion = "json \<Rightarrow> rat option"

text \<open>\<^verbatim>\<open>Number(v)\<close> followed by \<^verbatim>\<open>Number.isFinite\<close>.\<close>

fun finiteNumber :: "coercion \<Rightarrow> json \<Rightarrow> rat option" where
  "finiteNumber C JNull = Some 0"
| "finiteNumber C (JBool b) = Some (if b then 1 else 0)"
| "finiteNumber C (JNum n) = Some n"
| "finiteNumber C (JStr s) = C (JStr s)"
| "finiteNumber C (JArr vs) = C (JArr vs)"
| "finiteNumber C (JObj kvs) = None"

text \<open>
  Optional property access \<^verbatim>\<open>v?.k\<close>; \<open>None\<close> is \<^verbatim>\<open>undefined\<close>. The keys the
  program reads are no properties of numbers, strings, booleans or arrays.
\<close>

fun getprop :: "json option \<Rightarrow> string \<Rightarrow> json option" where
  "getprop (Some (JObj kvs)) k = map_of kvs k"
| "getprop _ k = None"

text \<open>The nullish coalescing \<^verbatim>\<open>a ?? b\<close>.\<close>

fun orElse :: "'a option \<Rightarrow> 'a \<Rightarrow> 'a" where
  "orElse None d = d"
| "orElse (Some a) d = a"

subsection \<open>Helpers\<close>

fun safeNumber :: "coercion \<Rightarrow> json option \<Rightarrow> rat option \<Rightarrow> rat option" where
  "safeNumber C None fallback = fallback"
| "safeNumber C (Some JNull) fallback = fallback"
| "safeNumber C (Some v) fallback =
     (case finiteNumber C v of Some n \<Rightarrow> Some n | None \<Rightarrow> fallback)"

text \<open>
  \<^verbatim>\<open>round(value, decimals)\<close>: \<^verbatim>\<open>Math.round\<close> takes the nearest integer and, of
  two nearest ones, the greater.
\<close>

definition math_round :: "rat \<Rightarrow> int" where
  "math_round x = \<lfloor>x + 1 / 2\<rfloor>"

fun round_js :: "rat option \<Rightarrow> nat \<Rightarrow> rat option" where
  "round_js None decimals = None"
| "round_js (Some v) decimals =
     Some (of_int (math_round (v * 10 ^ decimals)) / 10 ^ decimals)"

text \<open>
  \<open>deepMerge\<close> is called with a base that is the built-in defaults or the stored
  parameters of a profile, and with an override of declared type
  \<^verbatim>\<open>Record<string, unknown>\<close>, behind a test that the override is there; the calls
  it makes on itself are behind the test of lines 139 to 146. So both arguments are
  objects that are no arrays at every call, and the model is on such objects: the guard
  of line 134, which returns the base for an override that is no object, does not fire
  there. The loop over \<^verbatim>\<open>Object.keys(override)\<close> is \<open>mergeKeys\<close>; its third
  argument is \<^verbatim>\<open>result\<close>.

  An object read from JSON can hold a property of its own under the name
  \<^verbatim>\<open>__proto__\<close>. For this key of the override, when the base holds no such
  property of its own, \<^verbatim>\<open>base[key]\<close> (line 137) is the prototype of the base and
  the assignment to \<^verbatim>\<open>result[key]\<close> (lines 147 and 148) goes to the setter that
  every object inherits: no property is made in the result, whatever the value. When
  the base holds the property, the spread of line 135 copies it and the key is as any
  other. Under any other name that objects inherit, \<^verbatim>\<open>base[key]\<close> is a function,
  which fails the test of line 141 as a missing value does, and the assignment makes
  the property. The setter is the one that the language standard gives to every object;
  on a runtime that takes it off the prototype of objects the key would be as any other.
  The model holds the own properties of the result: the prototype that the setter gives
  it when the value is an object or \<^verbatim>\<open>null\<close> is not part of the model, and a value
  that is neither leaves no trace at all.
\<close>

function deepMerge :: "jobject \<Rightarrow> jobject \<Rightarrow> jobject"
  and mergeKeys :: "jobject \<Rightarrow> jobject \<Rightarrow> jobject \<Rightarrow> jobject" where
  "deepMerge base override = mergeKeys base override base"
| "mergeKeys base [] result = result"
| "mergeKeys base ((key, ov) # rest) result =
     mergeKeys base rest
       (if key = ''__proto__'' \<and> map_of base key = None then result
        else
          AList.update key
            (case (map_of base key, ov) of
               (Some (JObj b), JObj oo) \<Rightarrow> JObj (deepMerge b oo)
             | _ \<Rightarrow> ov)
            result)"
  by pat_completeness auto
termination
  apply (relation "measure (\<lambda>x. case x of
            Inl (b, ov) \<Rightarrow> 2 * size_list (size_prod (\<lambda>_. 0) size) ov + 1
          | Inr (b, ovs, r) \<Rightarrow> 2 * size_list (size_prod (\<lambda>_. 0) size) ovs)")
  apply auto
  done

subsection \<open>The stored tables\<close>

text \<open>
  A call of the database client either throws, or returns an error, or returns data.
  For a \<^verbatim>\<open>maybeSingle\<close> query the data is one row or \<^verbatim>\<open>null\<close>.
\<close>

datatype 'a reply = Thrown | Errored | Data 'a

datatype failure = Exception

fun startsWith :: "string \<Rightarrow> string \<Rightarrow> bool" where
  "startsWith s p = (take (length p) s = p)"

subsection \<open>Financing profile\<close>

record FinancementInput =
  profile_code :: "string option"
  overrides :: "jobject option"

record profile_row =
  row_code :: string
  row_params :: jobject

datatype profile_source = FromDb | FromDefault

record profil =
  code :: string
  params :: jobject
  source :: profile_source

definition defaults :: jobject where
  "defaults =
    [(''ventes'', JObj
        [(''logement'', JObj [(''prix_vente_m2'', JNum 7000), (''taux_vacance'', JNum 0)]),
         (''commerce'', JObj [(''prix_vente_m2'', JNum 8000), (''taux_vacance'', JNum 0)])]),
     (''couts'', JObj
        [(''construction'', JObj
            [(''logement_m2'', JNum 2300),
             (''commerce_m2'', JNum 2200),
             (''bureaux_m2'', JNum 2400)]),
         (''honoraires_pct'', JNum (5 / 100)),
         (''frais_etudes_pct'', JNum (2 / 100)),
         (''frais_commerciaux_pct'', JNum (3 / 100)),
         (''frais_financiers_pct'', JNum (4 / 100)),
         (''taxes_pct'', JNum (3 / 100))]),
     (''objectif'', JObj [(''marge_cible_pct_sur_ca'', JNum (12 / 100))])]"

text \<open>\<^verbatim>\<open>overrides ? deepMerge(base, overrides) : base\<close>\<close>

fun withOverrides :: "jobject \<Rightarrow> jobject option \<Rightarrow> jobject" where
  "withOverrides base None = base"
| "withOverrides base (Some ov) = deepMerge base ov"

text \<open>
  The first argument is the table \<^verbatim>\<open>promoteur_profiles\<close>, queried by code among
  the rows marked as default. A profile code that is absent, \<^verbatim>\<open>null\<close> or the empty
  string is falsy.
\<close>

definition fetchPromoteurProfile ::
  "(string \<Rightarrow> profile_row option reply) \<Rightarrow> FinancementInput option \<Rightarrow> failure + profil" where
  "fetchPromoteurProfile promoteur_profiles financement =
     (case (case financement of None \<Rightarrow> None | Some f \<Rightarrow> profile_code f) of
        None \<Rightarrow>
          Inr \<lparr>code = ''DEFAULT'',
               params = withOverrides defaults
                          (case financement of None \<Rightarrow> None | Some f \<Rightarrow> overrides f),
               source = FromDefault\<rparr>
      | Some pc \<Rightarrow>
          if pc = [] then
            Inr \<lparr>code = ''DEFAULT'',
                 params = withOverrides defaults
                            (case financement of None \<Rightarrow> None | Some f \<Rightarrow> overrides f),
                 source = FromDefault\<rparr>
          else
            (case promoteur_profiles pc of
               Thrown \<Rightarrow> Inl Exception
             | Errored \<Rightarrow>
                 Inr \<lparr>code = pc,
                      params = withOverrides defaults
                                 (case financement of None \<Rightarrow> None | Some f \<Rightarrow> overrides f),
                      source = FromDefault\<rparr>
             | Data None \<Rightarrow>
                 Inr \<lparr>code = pc,
                      params = withOverrides defaults
                                 (case financement of None \<Rightarrow> None | Some f \<Rightarrow> overrides f),
                      source = FromDefault\<rparr>
             | Data (Some d) \<Rightarrow>
                 Inr \<lparr>code = row_code d,
                      params = withOverrides (row_params d)
                                 (case financement of None \<Rightarrow> None | Some f \<Rightarrow> overrides f),
                      source = FromDb\<rparr>))"

subsection \<open>Land value from the recorded transactions\<close>

text \<open>
  A row of the table \<^verbatim>\<open>dvf_2025_s1_typed\<close>; \<open>None\<close> is the SQL null. The
  filters of the query are evaluated by the database: a comparison with null does not
  hold. The pattern of \<^verbatim>\<open>like\<close> is the prefix followed by \<^verbatim>\<open>%\<close>; the
  prefix is taken to hold no wildcard character. Without an order in the query, the
  1000 rows of \<^verbatim>\<open>limit\<close> are taken as the first ones of the table.
\<close>

record dvf_row =
  code_commune :: string
  valeur_fonciere :: "rat option"
  surface_terrain :: "rat option"
  nature_mutation :: "string option"
  type_local :: "string option"
  surface_reelle_bati :: "rat option"

definition dvf_filter :: "string \<Rightarrow> dvf_row \<Rightarrow> bool" where
  "dvf_filter depPrefix r =
     (startsWith (code_commune r) depPrefix
      \<and> nature_mutation r = Some ''Vente''
      \<and> type_local r = None
      \<and> surface_reelle_bati r = Some 0
      \<and> (case surface_terrain r of None \<Rightarrow> False | Some s \<Rightarrow> 0 < s)
      \<and> (case surface_terrain r of None \<Rightarrow> False | Some s \<Rightarrow> s \<le> 5000)
      \<and> (case valeur_fonciere r of None \<Rightarrow> False | Some v \<Rightarrow> 0 < v))"

definition dvf_query :: "string \<Rightarrow> dvf_row list \<Rightarrow> dvf_row list" where
  "dvf_query depPrefix table = take 1000 (filter (dvf_filter depPrefix) table)"

text \<open>
  A number or \<^verbatim>\<open>null\<close> as a value: a numeric column as the client hands it to the
  program, or a number of the program read again through \<open>safeNumber\<close>.
\<close>

fun numval :: "rat option \<Rightarrow> json option" where
  "numval None = Some JNull"
| "numval (Some n) = Some (JNum n)"

text \<open>The loop over the rows (lines 320 to 327); \<open>ratios\<close> is the array being filled.\<close>

fun collectRatios :: "coercion \<Rightarrow> dvf_row list \<Rightarrow> rat list \<Rightarrow> rat list" where
  "collectRatios C [] ratios = ratios"
| "collectRatios C (row # rows) ratios =
     collectRatios C rows
       (case (safeNumber C (numval (valeur_fonciere row)) None,
              safeNumber C (numval (surface_terrain row)) None) of
          (Some v, Some s) \<Rightarrow>
            if v \<noteq> 0 \<and> s \<noteq> 0 \<and> s > 0 then
              (let ratio = v / s
               in if ratio \<ge> 50 \<and> ratio \<le> 20000 then ratios @ [ratio] else ratios)
            else ratios
        | _ \<Rightarrow> ratios)"

text \<open>
  Lines 336 to 339: the array is sorted in ascending order and the median read from
  it. On an empty array the source would read outside the array and get NaN; the only
  call is behind the test that there are 30 ratios or more.
\<close>

definition median :: "rat list \<Rightarrow> rat option" where
  "median ratios =
     (let sorted = sort ratios;
          mid = length sorted div 2
      in if sorted = [] then None
         else if length sorted mod 2 = 1 then Some (sorted ! mid)
         else Some ((sorted ! (mid - 1) + sorted ! mid) / 2))"

datatype dvf_meta =
    Dvf_error string
  | Dvf_not_enough_samples nat
  | Dvf_ok rat nat
  | Dvf_exception

fun reason :: "dvf_meta \<Rightarrow> string" where
  "reason (Dvf_error depPrefix) = ''dvf_error''"
| "reason (Dvf_not_enough_samples n) = ''dvf_not_enough_samples''"
| "reason (Dvf_ok m n) = ''ok''"
| "reason Dvf_exception = ''dvf_exception''"

record dvf_estimate =
  valeur_terrain :: "rat option"
  meta :: dvf_meta

text \<open>
  The first argument is the table of transactions as the client reaches it: the reply
  to the query is computed from it by \<open>dvf_query\<close>. \<open>depPrefixOf\<close> is the
  constant \<^verbatim>\<open>depPrefix\<close> of lines 295 to 298. With 30 ratios or more the
  median has a value; the branch for \<open>None\<close> is never taken.
\<close>

definition depPrefixOf :: "string \<Rightarrow> string" where
  "depPrefixOf communeInsee =
     (if startsWith communeInsee ''97'' \<or> startsWith communeInsee ''98''
      then take 3 communeInsee else take 2 communeInsee)"

definition estimateFoncierFromDvfByCommune ::
  "coercion \<Rightarrow> dvf_row list reply \<Rightarrow> string \<Rightarrow> rat \<Rightarrow> dvf_estimate" where
  "estimateFoncierFromDvfByCommune C dvf communeInsee surfaceTerrainM2 =
     (let depPrefix = depPrefixOf communeInsee
      in case dvf of
           Thrown \<Rightarrow> \<lparr>valeur_terrain = None, meta = Dvf_exception\<rparr>
         | Errored \<Rightarrow> \<lparr>valeur_terrain = None, meta = Dvf_error depPrefix\<rparr>
         | Data table \<Rightarrow>
             (let ratios = collectRatios C (dvf_query depPrefix table) []
              in if length ratios < 30 then
                   \<lparr>valeur_terrain = None, meta = Dvf_not_enough_samples (length ratios)\<rparr>
                 else
                   (case median ratios of
                      None \<Rightarrow> \<lparr>valeur_terrain = None, meta = Dvf_exception\<rparr>
                    | Some m \<Rightarrow>
                        \<lparr>valeur_terrain = Some (m * surfaceTerrainM2),
                         meta = Dvf_ok m (length ratios)\<rparr>)))"

subsection \<open>The architectural study\<close>

record ProjetInput =
  destination_principale :: string
  scenario :: "string option"

record retraits =
  rue_m :: "rat option"
  fond_m :: "rat option"
  lateraux_m :: "rat option"

record hypotheses =
  hauteur_niveau_m :: rat
  taux_efficiences_plans :: rat
  scenario_projet :: string

text \<open>
  \<^verbatim>\<open>repartition_fonctions\<close>: the areas of the ground floor and of the upper
  floors; their constant type, housing, is left out.
\<close>

record repartition =
  rdc_m2 :: rat
  etages_m2 :: rat

record etude_archi =
  surface_terrain_m2 :: "rat option"
  emprise_autorisee_m2 :: "rat option"
  retraits :: retraits
  hauteur_max_m :: rat
  hypotheses :: hypotheses
  nb_niveaux_possibles :: int
  surface_niveau_typique_m2 :: "rat option"
  sdp_totale_potentielle_m2 :: "rat option"
  repartition_fonctions :: repartition

text \<open>
  The rule set is the JSON object stored for the zone or given with the request, or
  \<^verbatim>\<open>null\<close>. A scenario that is absent or the empty string is falsy.
\<close>

definition computeEtudeArchi ::
  "coercion \<Rightarrow> rat \<Rightarrow> json option \<Rightarrow> ProjetInput \<Rightarrow> etude_archi" where
  "computeEtudeArchi C surfaceTerrainM2 ruleset projet =
     (let empriseRatio =
            orElse (safeNumber C (getprop (getprop ruleset ''emprise_sol'') ''max_ratio'') None)
                   (6 / 10);
          empriseMaxM2FromRatio = surfaceTerrainM2 * empriseRatio;
          empriseMaxM2Fixed =
            safeNumber C (getprop (getprop ruleset ''emprise_sol'') ''max_m2'') None;
          empriseAutoriseeM2 =
            (case empriseMaxM2Fixed of
               Some fixed \<Rightarrow> min fixed empriseMaxM2FromRatio
             | None \<Rightarrow> empriseMaxM2FromRatio);
          hauteurMaxM =
            orElse (safeNumber C (getprop (getprop ruleset ''hauteur'') ''hauteur_max_m'') None)
                   15;
          hauteurNiveauM = 3;
          nbNiveauxPossibles = max 1 \<lfloor>hauteurMaxM / hauteurNiveauM\<rfloor>;
          tauxEfficiencesPlans = 85 / 100;
          surfaceNiveauTypiqueM2 = empriseAutoriseeM2 * tauxEfficiencesPlans;
          sdpTotalePotentielleM2 = surfaceNiveauTypiqueM2 * of_int nbNiveauxPossibles;
          scenario =
            (case scenario projet of
               None \<Rightarrow> ''logement_seul''
             | Some sc \<Rightarrow> if sc = [] then ''logement_seul'' else sc)
      in \<lparr>surface_terrain_m2 = round_js (Some surfaceTerrainM2) 2,
          emprise_autorisee_m2 = round_js (Some empriseAutoriseeM2) 2,
          retraits =
            \<lparr>rue_m =
               safeNumber C (getprop (getprop ruleset ''implantation'') ''retrait_rue_m'')
                 (Some 0),
             fond_m =
               safeNumber C
                 (getprop (getprop ruleset ''implantation'') ''retrait_fond_parcelle_m'') None,
             lateraux_m =
               safeNumber C
                 (getprop (getprop ruleset ''implantation'') ''retrait_lateraux_m'') None\<rparr>,
          hauteur_max_m = hauteurMaxM,
          hypotheses =
            \<lparr>hauteur_niveau_m = hauteurNiveauM,
             taux_efficiences_plans = tauxEfficiencesPlans,
             scenario_projet = scenario\<rparr>,
          nb_niveaux_possibles = nbNiveauxPossibles,
          surface_niveau_typique_m2 = round_js (Some surfaceNiveauTypiqueM2) 2,
          sdp_totale_potentielle_m2 = round_js (Some sdpTotalePotentielleM2) 2,
          repartition_fonctions =
            \<lparr>rdc_m2 = sdpTotalePotentielleM2 / of_int nbNiveauxPossibles,
             etages_m2 =
               sdpTotalePotentielleM2 - sdpTotalePotentielleM2 / of_int nbNiveauxPossibles\<rparr>\<rparr>)"

subsection \<open>Revenue and costs without the land\<close>

record vente =
  m2 :: "rat option"
  prix_m2 :: "rat option"
  ca :: "rat option"

record ventes =
  logement :: vente
  commerce :: vente
  bureaux :: vente
  ca_total :: "rat option"

record couts_hors_foncier =
  construction :: "rat option"
  honoraires :: "rat option"
  frais_etudes :: "rat option"
  frais_commerciaux :: "rat option"
  frais_financiers :: "rat option"
  taxes :: "rat option"
  cout_total_hors_foncier :: "rat option"

record revenus_couts =
  sdpTotale :: rat
  ventes :: ventes
  couts_hors_foncier :: couts_hors_foncier
  ca_total_brut :: rat
  cout_total_hors_foncier_brut :: rat

text \<open>\<^verbatim>\<open>profil.params?.a?.b\<close> and \<^verbatim>\<open>profil.params?.a?.b?.c\<close>\<close>

definition param2 :: "jobject \<Rightarrow> string \<Rightarrow> string \<Rightarrow> json option" where
  "param2 ps a b = getprop (getprop (Some (JObj ps)) a) b"

definition param3 :: "jobject \<Rightarrow> string \<Rightarrow> string \<Rightarrow> string \<Rightarrow> json option" where
  "param3 ps a b c = getprop (getprop (getprop (Some (JObj ps)) a) b) c"

definition computeRevenusEtCoutsHorsFoncier ::
  "coercion \<Rightarrow> etude_archi \<Rightarrow> profil \<Rightarrow> revenus_couts" where
  "computeRevenusEtCoutsHorsFoncier C etudeArchi profil =
     (let ps = params profil;
          sdpTotale =
            orElse (safeNumber C (numval (sdp_totale_potentielle_m2 etudeArchi)) (Some 0)) 0;
          m2Logement = sdpTotale;
          m2Commerce = 0;
          m2Bureaux = 0;
          prixLogement =
            orElse (safeNumber C (param3 ps ''ventes'' ''logement'' ''prix_vente_m2'')
                      (Some 7000)) 7000;
          prixCommerce =
            orElse (safeNumber C (param3 ps ''ventes'' ''commerce'' ''prix_vente_m2'')
                      (Some 8000)) 8000;
          prixBureaux =
            orElse (safeNumber C (param3 ps ''ventes'' ''bureaux'' ''prix_vente_m2'')
                      (Some 7500)) 7500;
          caLogement = m2Logement * prixLogement;
          caCommerce = m2Commerce * prixCommerce;
          caBureaux = m2Bureaux * prixBureaux;
          caTotal = caLogement + caCommerce + caBureaux;
          coutConstructionLogement =
            m2Logement *
            orElse (safeNumber C (param3 ps ''couts'' ''construction'' ''logement_m2'')
                      (Some 2300)) 2300;
          coutConstructionCommerce =
            m2Commerce *
            orElse (safeNumber C (param3 ps ''couts'' ''construction'' ''commerce_m2'')
                      (Some 2200)) 2200;
          coutConstructionBureaux =
            m2Bureaux *
            orElse (safeNumber C (param3 ps ''couts'' ''construction'' ''bureaux_m2'')
                      (Some 2400)) 2400;
          coutConstructionTotal =
            coutConstructionLogement + coutConstructionCommerce + coutConstructionBureaux;
          honorairesPct =
            orElse (safeNumber C (param2 ps ''couts'' ''honoraires_pct'') (Some (5 / 100)))
                   (5 / 100);
          fraisEtudesPct =
            orElse (safeNumber C (param2 ps ''couts'' ''frais_etudes_pct'') (Some (2 / 100)))
                   (2 / 100);
          fraisCommerciauxPct =
            orElse (safeNumber C (param2 ps ''couts'' ''frais_commerciaux_pct'')
                      (Some (3 / 100))) (3 / 100);
          fraisFinanciersPct =
            orElse (safeNumber C (param2 ps ''couts'' ''frais_financiers_pct'')
                      (Some (4 / 100))) (4 / 100);
          taxesPct =
            orElse (safeNumber C (param2 ps ''couts'' ''taxes_pct'') (Some (3 / 100)))
                   (3 / 100);
          honoraires = coutConstructionTotal * honorairesPct;
          fraisEtudes = coutConstructionTotal * fraisEtudesPct;
          fraisCommerciaux = caTotal * fraisCommerciauxPct;
          fraisFinanciers = caTotal * fraisFinanciersPct;
          taxes = caTotal * taxesPct;
          coutHorsFoncierTotal =
            coutConstructionTotal + honoraires + fraisEtudes + fraisCommerciaux
            + fraisFinanciers + taxes
      in \<lparr>sdpTotale = sdpTotale,
          ventes =
            \<lparr>logement =
               \<lparr>m2 = round_js (Some m2Logement) 2,
                prix_m2 = round_js (Some prixLogement) 0,
                ca = round_js (Some caLogement) 0\<rparr>,
             commerce =
               \<lparr>m2 = round_js (Some m2Commerce) 2,
                prix_m2 = round_js (Some prixCommerce) 0,
                ca = round_js (Some caCommerce) 0\<rparr>,
             bureaux =
               \<lparr>m2 = round_js (Some m2Bureaux) 2,
                prix_m2 = round_js (Some prixBureaux) 0,
                ca = round_js (Some caBureaux) 0\<rparr>,
             ca_total = round_js (Some caTotal) 0\<rparr>,
          couts_hors_foncier =
            \<lparr>construction = round_js (Some coutConstructionTotal) 0,
             honoraires = round_js (Some honoraires) 0,
             frais_etudes = round_js (Some fraisEtudes) 0,
             frais_commerciaux = round_js (Some fraisCommerciaux) 0,
             frais_financiers = round_js (Some fraisFinanciers) 0,
             taxes = round_js (Some taxes) 0,
             cout_total_hors_foncier = round_js (Some coutHorsFoncierTotal) 0\<rparr>,
          ca_total_brut = caTotal,
          cout_total_hors_foncier_brut = coutHorsFoncierTotal\<rparr>)"

subsection \<open>Land cost and margin\<close>

record FoncierInput =
  mode :: "string option"
  valeur_terrain_saisi :: "json option"

datatype appreciation = Inconnu | Tres_confortable | Confortable | Tendue | Faible

record marge =
  montant :: "rat option"
  taux_sur_ca :: "rat option"
  marge_cible_pct_sur_ca :: "rat option"
  appreciation :: appreciation

record par_m2 =
  residuel :: "rat option"
  saisi :: "rat option"

record foncier_detail =
  fd_mode :: string
  fd_valeur_terrain_saisi :: "rat option"
  fd_valeur_terrain_residuelle :: "rat option"
  fd_delta_vs_residuel :: "rat option"
  fd_delta_vs_residuel_pct :: "rat option"
  fd_par_m2_sdp :: par_m2
  fd_par_m2_terrain :: par_m2

record foncier_marge =
  cout_foncier_effectif :: "rat option"
  cout_total_effectif :: "rat option"
  valeur_terrain_residuelle :: "rat option"
  marge :: marge
  foncier_detail :: foncier_detail

text \<open>
  The five labels of \<^verbatim>\<open>appreciation\<close> are a datatype: \<open>Inconnu\<close> is the initial
  \<^verbatim>\<open>"inconnu"\<close>, and the four that follow are the labels of lines 584 to 587 in
  their order. In the test of line 574 the declared value is first tested for being
  truthy, that is, not zero.
\<close>

definition computeFoncierEtMarge ::
  "coercion \<Rightarrow> rat \<Rightarrow> rat \<Rightarrow> rat \<Rightarrow> rat \<Rightarrow> profil \<Rightarrow> FoncierInput option \<Rightarrow> foncier_marge"
  where
  "computeFoncierEtMarge C caTotal coutHorsFoncierTotal sdpTotale0 surfaceTerrainM2 profil foncier =
     (let margeCible =
            orElse (safeNumber C (param2 (params profil) ''objectif'' ''marge_cible_pct_sur_ca'')
                      (Some (12 / 100))) (12 / 100);
          valeurTerrainResiduelle = caTotal * (1 - margeCible) - coutHorsFoncierTotal;
          mode0 = orElse (case foncier of None \<Rightarrow> None | Some f \<Rightarrow> mode f) ''none'';
          mode = (if mode0 \<in> set [''saisi'', ''residuel'', ''none'', ''dvf''] then mode0
                  else ''none'');
          valeurTerrainSaisi =
            safeNumber C (case foncier of None \<Rightarrow> None | Some f \<Rightarrow> valeur_terrain_saisi f)
              None;
          coutFoncierEffectif =
            (case valeurTerrainSaisi of
               Some v \<Rightarrow> if mode = ''saisi'' \<and> v \<noteq> 0 \<and> v > 0 then v else 0
             | None \<Rightarrow> 0);
          coutTotalEffectif = coutHorsFoncierTotal + coutFoncierEffectif;
          margeMontant = caTotal - coutTotalEffectif;
          margeTaux = (if caTotal > 0 then margeMontant / caTotal else 0);
          appreciation =
            (if margeTaux \<ge> margeCible + 5 / 100 then Tres_confortable
             else if margeTaux \<ge> margeCible then Confortable
             else if margeTaux \<ge> margeCible - 3 / 100 then Tendue
             else Faible);
          sdp = (if sdpTotale0 > 0 then sdpTotale0 else 1);
          terrainM2 = (if surfaceTerrainM2 > 0 then surfaceTerrainM2 else 1);
          foncierResiduelParM2Sdp = valeurTerrainResiduelle / sdp;
          foncierResiduelParM2Terrain = valeurTerrainResiduelle / terrainM2;
          foncierSaisiParM2Sdp = coutFoncierEffectif / sdp;
          foncierSaisiParM2Terrain = coutFoncierEffectif / terrainM2;
          deltaVsResiduel = coutFoncierEffectif - valeurTerrainResiduelle;
          deltaVsResiduelPct =
            (if valeurTerrainResiduelle \<noteq> 0 then Some (deltaVsResiduel / valeurTerrainResiduelle)
             else None)
      in \<lparr>cout_foncier_effectif = round_js (Some coutFoncierEffectif) 0,
          cout_total_effectif = round_js (Some coutTotalEffectif) 0,
          valeur_terrain_residuelle = round_js (Some valeurTerrainResiduelle) 0,
          marge =
            \<lparr>montant = round_js (Some margeMontant) 0,
             taux_sur_ca = round_js (Some (margeTaux * 100)) 1,
             marge_cible_pct_sur_ca = round_js (Some (margeCible * 100)) 1,
             appreciation = appreciation\<rparr>,
          foncier_detail =
            \<lparr>fd_mode = mode,
             fd_valeur_terrain_saisi = round_js valeurTerrainSaisi 0,
             fd_valeur_terrain_residuelle = round_js (Some valeurTerrainResiduelle) 0,
             fd_delta_vs_residuel = round_js (Some deltaVsResiduel) 0,
             fd_delta_vs_residuel_pct =
               (case deltaVsResiduelPct of
                  Some pct \<Rightarrow> round_js (Some (pct * 100)) 1
                | None \<Rightarrow> None),
             fd_par_m2_sdp =
               \<lparr>residuel = round_js (Some foncierResiduelParM2Sdp) 0,
                saisi = (if coutFoncierEffectif > 0 then round_js (Some foncierSaisiParM2Sdp) 0
                         else None)\<rparr>,
             fd_par_m2_terrain =
               \<lparr>residuel = round_js (Some foncierResiduelParM2Terrain) 0,
                saisi = (if coutFoncierEffectif > 0
                         then round_js (Some foncierSaisiParM2Terrain) 0
                         else None)\<rparr>\<rparr>\<rparr>)"

subsection \<open>The HTTP handler\<close>

record ParcelInput =
  parcel_id :: "string option"
  parcel_surface_terrain_m2 :: "json option"

record PluInput =
  commune_insee :: string
  zone_code :: string

record PluOverrides =
  ruleset :: "json option"

text \<open>
  The four tables the handler reads: a parcel by identifier, the active rule set of a
  commune and zone (the stored \<^verbatim>\<open>ruleset\<close> column of the row), a default profile
  by code, and the transactions.
\<close>

record tables =
  cadastre_parcelles :: "string \<Rightarrow> jobject option reply"
  plu_ruleset_normalized :: "string \<Rightarrow> string \<Rightarrow> json option reply"
  promoteur_profiles :: "string \<Rightarrow> profile_row option reply"
  dvf_2025_s1_typed :: "dvf_row list reply"

fun truthy :: "json \<Rightarrow> bool" where
  "truthy JNull = False"
| "truthy (JBool b) = b"
| "truthy (JNum n) = (n \<noteq> 0)"
| "truthy (JStr s) = (s \<noteq> [])"
| "truthy (JArr vs) = True"
| "truthy (JObj kvs) = True"

text \<open>The rule set of \<open>fetchPluRuleset\<close>; the descriptive \<^verbatim>\<open>meta\<close> is left out.\<close>

definition fetchPluRuleset ::
  "(string \<Rightarrow> string \<Rightarrow> json option reply) \<Rightarrow> PluInput \<Rightarrow> failure + json option" where
  "fetchPluRuleset plu_rulesets input =
     (case plu_rulesets (commune_insee input) (zone_code input) of
        Thrown \<Rightarrow> Inl Exception
      | Errored \<Rightarrow> Inl Exception
      | Data None \<Rightarrow> Inr None
      | Data (Some stored) \<Rightarrow> Inr (Some (if truthy stored then stored else JObj [])))"

definition fetchSurfaceFromCadastre ::
  "coercion \<Rightarrow> (string \<Rightarrow> jobject option reply) \<Rightarrow> ParcelInput \<Rightarrow> failure + rat option" where
  "fetchSurfaceFromCadastre C cadastre parcel =
     (case parcel_id parcel of
        None \<Rightarrow> Inr None
      | Some pid \<Rightarrow>
          if pid = [] then Inr None
          else
            (case cadastre pid of
               Thrown \<Rightarrow> Inl Exception
             | Errored \<Rightarrow> Inr None
             | Data None \<Rightarrow> Inr None
             | Data (Some row) \<Rightarrow>
                 (let data = Some (JObj row);
                      props =
                        (case getprop data ''props'' of
                           None \<Rightarrow> JObj []
                         | Some p \<Rightarrow> if truthy p then p else JObj []);
                      candidates =
                        [safeNumber C (getprop data ''surface_terrain_m2'') None,
                         safeNumber C (getprop data ''surface_m2'') None,
                         safeNumber C (getprop data ''surface'') None,
                         safeNumber C (getprop data ''superficie'') None,
                         safeNumber C (getprop data ''contenance'') None,
                         safeNumber C (getprop (Some props) ''contenance'') None]
                  in Inr (case find (\<lambda>x. case x of None \<Rightarrow> False | Some n \<Rightarrow> n \<noteq> 0 \<and> n > 0)
                                 candidates of
                            None \<Rightarrow> None
                          | Some x \<Rightarrow> x))))"

text \<open>Step 1 of the handler (lines 688 to 692).\<close>

definition resolveSurface ::
  "coercion \<Rightarrow> (string \<Rightarrow> jobject option reply) \<Rightarrow> ParcelInput \<Rightarrow> failure + rat option" where
  "resolveSurface C cadastre parcel =
     (case safeNumber C (parcel_surface_terrain_m2 parcel) None of
        Some surfaceTerrain \<Rightarrow> Inr (Some surfaceTerrain)
      | None \<Rightarrow>
          (case parcel_id parcel of
             None \<Rightarrow> Inr None
           | Some pid \<Rightarrow>
               if pid = [] then Inr None else fetchSurfaceFromCadastre C cadastre parcel))"

datatype human_message = Utilisera_la_valeur_residuelle | Utilise_la_valeur_residuelle

text \<open>
  \<^verbatim>\<open>dvfInfo\<close>: the constant \<^verbatim>\<open>source\<close> is left out, \<open>di_meta\<close> holds what the
  spread of \<^verbatim>\<open>dvf.meta\<close> copies (the reason among it), and the two messages are
  named by their verb.
\<close>

record dvf_info =
  di_meta :: dvf_meta
  valeur_terrain_estimee :: "rat option"
  used_for_foncier :: bool
  human_message :: "human_message option"
  fallback_mode :: "string option"
  valeur_terrain_residuelle_utilisee :: "rat option"

text \<open>Step 6 of the handler (lines 760 to 793).\<close>

definition resolveDvf ::
  "coercion \<Rightarrow> dvf_row list reply \<Rightarrow> string \<Rightarrow> rat \<Rightarrow> FoncierInput option
     \<Rightarrow> FoncierInput \<times> dvf_info option" where
  "resolveDvf C dvf_table communeInsee surfaceTerrain foncierInput =
     (let foncierEffective =
            (case foncierInput of
               Some f \<Rightarrow> f
             | None \<Rightarrow> \<lparr>mode = Some ''none'', valeur_terrain_saisi = None\<rparr>)
      in if mode foncierEffective = Some ''dvf'' then
           (let dvf = estimateFoncierFromDvfByCommune C dvf_table communeInsee surfaceTerrain
            in case valeur_terrain dvf of
                 Some estimee \<Rightarrow>
                   (\<lparr>mode = Some ''saisi'', valeur_terrain_saisi = Some (JNum estimee)\<rparr>,
                    Some \<lparr>di_meta = meta dvf,
                          valeur_terrain_estimee = Some estimee,
                          used_for_foncier = True,
                          human_message = None,
                          fallback_mode = None,
                          valeur_terrain_residuelle_utilisee = None\<rparr>)
               | None \<Rightarrow>
                   (foncierEffective,
                    Some \<lparr>di_meta = meta dvf,
                          valeur_terrain_estimee = None,
                          used_for_foncier = False,
                          human_message = Some Utilisera_la_valeur_residuelle,
                          fallback_mode = None,
                          valeur_terrain_residuelle_utilisee = None\<rparr>))
         else (foncierEffective, None))"

text \<open>
  The margin computation as the handler calls it, at lines 796 to 803 and again at
  lines 826 to 833, with the land input in force at the time.
\<close>

definition passeFoncierEtMarge ::
  "coercion \<Rightarrow> revenus_couts \<Rightarrow> rat \<Rightarrow> profil \<Rightarrow> FoncierInput \<Rightarrow> foncier_marge" where
  "passeFoncierEtMarge C revenusCouts surfaceTerrain profil foncierEffective =
     computeFoncierEtMarge C
       (ca_total_brut revenusCouts)
       (cout_total_hors_foncier_brut revenusCouts)
       (sdpTotale revenusCouts)
       surfaceTerrain profil (Some foncierEffective)"

text \<open>
  The automatic fallback (lines 805 to 834): from the land input and the information
  of step 6 and the first margin computation, the margin computation and the
  information of the response.
\<close>

definition fallbackResiduel ::
  "coercion \<Rightarrow> revenus_couts \<Rightarrow> rat \<Rightarrow> profil \<Rightarrow> FoncierInput \<Rightarrow> dvf_info option
     \<Rightarrow> foncier_marge \<Rightarrow> foncier_marge \<times> dvf_info option" where
  "fallbackResiduel C revenusCouts surfaceTerrain profil foncierEffective dvfInfo foncierEtMarge =
     (case dvfInfo of
        None \<Rightarrow> (foncierEtMarge, dvfInfo)
      | Some info \<Rightarrow>
          if mode foncierEffective = Some ''dvf'' \<and> used_for_foncier info = False then
            (let valeurResiduelle = orElse (valeur_terrain_residuelle foncierEtMarge) 0;
                 foncierEffective2 =
                   \<lparr>mode = Some ''saisi'',
                    valeur_terrain_saisi =
                      Some (JNum (if valeurResiduelle > 0 then valeurResiduelle else 0))\<rparr>;
                 info2 =
                   info\<lparr>human_message := Some Utilise_la_valeur_residuelle,
                        used_for_foncier := True,
                        fallback_mode := Some ''residuel_from_marge'',
                        valeur_terrain_residuelle_utilisee := Some valeurResiduelle\<rparr>
             in (passeFoncierEtMarge C revenusCouts surfaceTerrain profil foncierEffective2,
                 Some info2))
          else (foncierEtMarge, dvfInfo))"

text \<open>
  The response. Of the payload, the echo of the inputs and of the rule set is left out;
  \<open>couts_lignes\<close> holds the six cost lines that \<^verbatim>\<open>coutsFinal\<close> copies from the
  costs without the land.
\<close>

record couts =
  couts_foncier :: "rat option"
  couts_lignes :: couts_hors_foncier
  couts_cout_total :: "rat option"

record bilan_promoteur =
  bilan_ventes :: ventes
  bilan_couts :: couts
  bilan_marge :: marge
  valeur_residuelle_terrain_theorique :: "rat option"
  marge_developpeur :: appreciation
  bilan_foncier_detail :: foncier_detail
  bilan_dvf_info :: "dvf_info option"

record payload =
  payload_etude_archi :: etude_archi
  payload_bilan :: bilan_promoteur

datatype response =
    Preflight
  | Method_not_allowed
  | Missing_fields
  | Surface_unknown
  | Plu_not_found
  | Internal_error
  | Success payload

fun status :: "response \<Rightarrow> nat" where
  "status Preflight = 200"
| "status Method_not_allowed = 405"
| "status Missing_fields = 400"
| "status Surface_unknown = 400"
| "status Plu_not_found = 404"
| "status Internal_error = 500"
| "status (Success p) = 200"

text \<open>\<^verbatim>\<open>coutsFinal\<close> and \<^verbatim>\<open>responsePayload\<close> (lines 836 to 874).\<close>

definition responsePayload ::
  "etude_archi \<Rightarrow> revenus_couts \<Rightarrow> foncier_marge \<Rightarrow> dvf_info option \<Rightarrow> payload" where
  "responsePayload etudeArchi revenusCouts foncierEtMarge dvfInfo =
     \<lparr>payload_etude_archi = etudeArchi,
      payload_bilan =
        \<lparr>bilan_ventes = ventes revenusCouts,
         bilan_couts =
           \<lparr>couts_foncier = cout_foncier_effectif foncierEtMarge,
            couts_lignes = couts_hors_foncier revenusCouts,
            couts_cout_total = cout_total_effectif foncierEtMarge\<rparr>,
         bilan_marge = marge foncierEtMarge,
         valeur_residuelle_terrain_theorique = valeur_terrain_residuelle foncierEtMarge,
         marge_developpeur = appreciation (marge foncierEtMarge),
         bilan_foncier_detail = foncier_detail foncierEtMarge,
         bilan_dvf_info = dvfInfo\<rparr>\<rparr>"

text \<open>Steps 4 to 7 and the payload (lines 749 to 874), once the lookups are done.\<close>

definition bilan ::
  "coercion \<Rightarrow> dvf_row list reply \<Rightarrow> PluInput \<Rightarrow> ProjetInput \<Rightarrow> FoncierInput option \<Rightarrow> rat
     \<Rightarrow> json option \<Rightarrow> profil \<Rightarrow> payload" where
  "bilan C dvf_table plu projet foncierInput surfaceTerrain finalRuleset profil =
     (let etudeArchi = computeEtudeArchi C surfaceTerrain finalRuleset projet;
          revenusCouts = computeRevenusEtCoutsHorsFoncier C etudeArchi profil;
          (foncierEffective, dvfInfo) =
            resolveDvf C dvf_table (commune_insee plu) surfaceTerrain foncierInput;
          foncierEtMarge1 =
            passeFoncierEtMarge C revenusCouts surfaceTerrain profil foncierEffective;
          (foncierEtMarge, dvfInfo2) =
            fallbackResiduel C revenusCouts surfaceTerrain profil foncierEffective dvfInfo
              foncierEtMarge1
      in responsePayload etudeArchi revenusCouts foncierEtMarge dvfInfo2)"

record PromoteurInput =
  parcel :: "ParcelInput option"
  plu :: "PluInput option"
  projet :: "ProjetInput option"
  financement :: "FinancementInput option"
  foncier :: "FoncierInput option"
  plu_overrides :: "PluOverrides option"

text \<open>A request: its method, and its body when it parses (reading the body throws otherwise).\<close>

record request =
  http_method :: string
  body :: "PromoteurInput option"

definition serve :: "coercion \<Rightarrow> tables \<Rightarrow> request \<Rightarrow> response" where
  "serve C db req =
     (if http_method req = ''OPTIONS'' then Preflight
      else if http_method req \<noteq> ''POST'' then Method_not_allowed
      else
        (case body req of
           None \<Rightarrow> Internal_error
         | Some b \<Rightarrow>
             (case (parcel b, plu b, projet b) of
                (Some parcel0, Some plu0, Some projet0) \<Rightarrow>
                  (case resolveSurface C (cadastre_parcelles db) parcel0 of
                     Inl e \<Rightarrow> Internal_error
                   | Inr None \<Rightarrow> Surface_unknown
                   | Inr (Some surfaceTerrain) \<Rightarrow>
                       (case fetchPluRuleset (plu_ruleset_normalized db) plu0 of
                          Inl e \<Rightarrow> Internal_error
                        | Inr rulesetFromDb \<Rightarrow>
                            (let overrideRuleset =
                                   (case plu_overrides b of
                                      None \<Rightarrow> None
                                    | Some pluOverrides \<Rightarrow> ruleset pluOverrides);
                                 hasOverrides =
                                   (case overrideRuleset of
                                      None \<Rightarrow> False
                                    | Some r \<Rightarrow> truthy r)
                             in if rulesetFromDb = None \<and> \<not> hasOverrides then Plu_not_found
                                else
                                  (let finalRuleset =
                                         (case overrideRuleset of
                                            None \<Rightarrow> rulesetFromDb
                                          | Some r \<Rightarrow>
                                              if r = JNull then rulesetFromDb else Some r)
                                   in case fetchPromoteurProfile (promoteur_profiles db)
                                             (financement b) of
                                        Inl e \<Rightarrow> Internal_error
                                      | Inr profil \<Rightarrow>
                                          Success
                                            (bilan C (dvf_2025_s1_typed db) plu0 projet0
                                               (foncier b) surfaceTerrain finalRuleset
                                               profil)))))
              | _ \<Rightarrow> Missing_fields)))"

subsection \<open>Inputs of the worked example\<close>

text \<open>
  A terrain of 500 m2 under a rule set with footprint ratio 0.6, no footprint cap and
  a height of 15 m; the default profile with a sale price of 6000, a construction cost
  of 2500, honoraria of 5 % and a target margin of 12 %.
\<close>

definition no_coercion :: coercion where
  "no_coercion v = None"

definition example_ruleset :: json where
  "example_ruleset =
     JObj [(''emprise_sol'', JObj [(''max_ratio'', JNum (6 / 10))]),
           (''hauteur'', JObj [(''hauteur_max_m'', JNum 15)])]"

definition example_overrides :: jobject where
  "example_overrides =
     [(''ventes'', JObj [(''logement'', JObj [(''prix_vente_m2'', JNum 6000)])]),
      (''couts'', JObj [(''construction'', JObj [(''logement_m2'', JNum 2500)]),
                        (''honoraires_pct'', JNum (5 / 100))]),
      (''objectif'', JObj [(''marge_cible_pct_sur_ca'', JNum (12 / 100))])]"

definition example_projet :: ProjetInput where
  "example_projet = \<lparr>destination_principale = ''logement'', scenario = None\<rparr>"

definition example_profil :: profil where
  "example_profil =
     \<lparr>code = ''DEFAULT'', params = deepMerge defaults example_overrides, source = FromDefault\<rparr>"

text \<open>
  Transactions of Paris: \<open>example_row v\<close> is a sale of bare land of 1000 m2 at the
  price \<open>v\<close>. The first table holds 29 rows at 100 per m2, a row with a building and
  a row at 10 per m2; the second has one more row, at 300 per m2.
\<close>

definition example_row :: "rat \<Rightarrow> dvf_row" where
  "example_row v =
     \<lparr>code_commune = ''75056'', valeur_fonciere = Some v, surface_terrain = Some 1000,
      nature_mutation = Some ''Vente'', type_local = None, surface_reelle_bati = Some 0\<rparr>"

definition example_table29 :: "dvf_row list" where
  "example_table29 =
     replicate 29 (example_row 100000)
     @ [(example_row 100000)\<lparr>type_local := Some ''Maison'', surface_reelle_bati := Some 90\<rparr>,
        example_row 10000]"

definition example_table30 :: "dvf_row list" where
  "example_table30 = example_row 300000 # example_table29"

text \<open>
  Two states of the table of profiles: one without any row, and one with a default
  profile \<^verbatim>\<open>PREMIUM\<close> that stores a target margin of 15 %.
\<close>

definition no_profiles :: "string \<Rightarrow> profile_row option reply" where
  "no_profiles pc = Data None"

definition premium_profiles :: "string \<Rightarrow> profile_row option reply" where
  "premium_profiles pc =
     (if pc = ''PREMIUM''
      then Data (Some \<lparr>row_code = ''PREMIUM'',
                        row_params =
                          [(''objectif'', JObj [(''marge_cible_pct_sur_ca'', JNum (15 / 100))])]\<rparr>)
      else Data None)"

text \<open>
  The zone of the example, a rule set whose footprint cap is 0, and the default profile
  with a sale price of 1000, under which the residual value is negative.
\<close>

definition example_plu :: PluInput where
  "example_plu = \<lparr>commune_insee = ''75056'', zone_code = ''UG''\<rparr>"

definition zero_cap_ruleset :: json where
  "zero_cap_ruleset = JObj [(''emprise_sol'', JObj [(''max_m2'', JNum 0)])]"

definition low_price_profil :: profil where
  "low_price_profil =
     \<lparr>code = ''DEFAULT'',
      params =
        deepMerge defaults
          [(''ventes'', JObj [(''logement'', JObj [(''prix_vente_m2'', JNum 1000)])])],
      source = FromDefault\<rparr>"

text \<open>
  Tables without parcels and rule sets, over a given table of transactions, and the
  request of the worked example with a given terrain area and land input.
\<close>

definition no_parcels :: "string \<Rightarrow> jobject option reply" where
  "no_parcels pid = Data None"

definition no_rulesets :: "string \<Rightarrow> string \<Rightarrow> json option reply" where
  "no_rulesets c z = Data None"

definition example_tables :: "dvf_row list reply \<Rightarrow> tables" where
  "example_tables t =
     \<lparr>cadastre_parcelles = no_parcels,
      plu_ruleset_normalized = no_rulesets,
      promoteur_profiles = no_profiles,
      dvf_2025_s1_typed = t\<rparr>"

definition example_request :: "json \<Rightarrow> FoncierInput option \<Rightarrow> request" where
  "example_request surface fi =
     \<lparr>http_method = ''POST'',
      body =
        Some \<lparr>parcel = Some \<lparr>parcel_id = None, parcel_surface_terrain_m2 = Some surface\<rparr>,
              plu = Some example_plu,
              projet = Some example_projet,
              financement = Some \<lparr>profile_code = None, overrides = Some example_overrides\<rparr>,
              foncier = fi,
              plu_overrides = Some \<lparr>ruleset = Some example_ruleset\<rparr>\<rparr>\<rparr>"

text \<open>
  Two land inputs: a declared value of 2 000 000.40, and the request of the value from
  the transactions.
\<close>

definition example_declared :: FoncierInput where
  "example_declared =
     \<lparr>mode = Some ''saisi'', valeur_terrain_saisi = Some (JNum (20000004 / 10))\<rparr>"

definition example_dvf :: FoncierInput where
  "example_dvf = \<lparr>mode = Some ''dvf'', valeur_terrain_saisi = None\<rparr>"

section \<open>Properties\<close>

subsection \<open>Rounding\<close>

lemma floor_rat_numeral [simp]:
  "\<lfloor>(numeral a / numeral b :: rat)\<rfloor> = numeral a div numeral b"
  using floor_divide_of_int_eq [of "numeral a" "numeral b", where ?'a = rat] by simp

lemma floor_rat_neg_numeral [simp]:
  "\<lfloor>(- (numeral a / numeral b) :: rat)\<rfloor> = - numeral a div numeral b"
  using floor_divide_of_int_eq [of "- numeral a" "numeral b", where ?'a = rat] by simp

lemma floor_rat_one_div [simp]: "\<lfloor>(1 / numeral b :: rat)\<rfloor> = 1 div numeral b"
  using floor_divide_of_int_eq [of 1 "numeral b", where ?'a = rat] by simp

lemma math_round_of_int [simp]: "math_round (of_int k) = k"
proof -
  have "\<lfloor>1 / 2 + (of_int k :: rat)\<rfloor> = \<lfloor>(1 / 2 :: rat)\<rfloor> + k"
    by (rule floor_add_int [symmetric])
  then show ?thesis
    by (simp add: math_round_def add.commute)
qed

lemma math_round_numeral [simp]: "math_round (numeral k) = numeral k"
  using math_round_of_int [of "numeral k"] by simp

lemma math_round_zero [simp]: "math_round 0 = 0"
  using math_round_of_int [of 0] by simp

subsection \<open>The worked example\<close>

lemma example_params:
  "params example_profil =
    [(''ventes'', JObj
        [(''logement'', JObj [(''prix_vente_m2'', JNum 6000), (''taux_vacance'', JNum 0)]),
         (''commerce'', JObj [(''prix_vente_m2'', JNum 8000), (''taux_vacance'', JNum 0)])]),
     (''couts'', JObj
        [(''construction'', JObj
            [(''logement_m2'', JNum 2500),
             (''commerce_m2'', JNum 2200),
             (''bureaux_m2'', JNum 2400)]),
         (''honoraires_pct'', JNum (5 / 100)),
         (''frais_etudes_pct'', JNum (2 / 100)),
         (''frais_commerciaux_pct'', JNum (3 / 100)),
         (''frais_financiers_pct'', JNum (4 / 100)),
         (''taxes_pct'', JNum (3 / 100))]),
     (''objectif'', JObj [(''marge_cible_pct_sur_ca'', JNum (12 / 100))])]"
  by (simp add: example_profil_def defaults_def example_overrides_def)

lemma example_lookups:
  "param3 (params example_profil) ''ventes'' ''logement'' ''prix_vente_m2'' = Some (JNum 6000)"
  "param3 (params example_profil) ''ventes'' ''commerce'' ''prix_vente_m2'' = Some (JNum 8000)"
  "param3 (params example_profil) ''ventes'' ''bureaux'' ''prix_vente_m2'' = None"
  "param3 (params example_profil) ''couts'' ''construction'' ''logement_m2'' = Some (JNum 2500)"
  "param3 (params example_profil) ''couts'' ''construction'' ''commerce_m2'' = Some (JNum 2200)"
  "param3 (params example_profil) ''couts'' ''construction'' ''bureaux_m2'' = Some (JNum 2400)"
  "param2 (params example_profil) ''couts'' ''honoraires_pct'' = Some (JNum (5 / 100))"
  "param2 (params example_profil) ''couts'' ''frais_etudes_pct'' = Some (JNum (2 / 100))"
  "param2 (params example_profil) ''couts'' ''frais_commerciaux_pct'' = Some (JNum (3 / 100))"
  "param2 (params example_profil) ''couts'' ''frais_financiers_pct'' = Some (JNum (4 / 100))"
  "param2 (params example_profil) ''couts'' ''taxes_pct'' = Some (JNum (3 / 100))"
  "param2 (params example_profil) ''objectif'' ''marge_cible_pct_sur_ca'' = Some (JNum (12 / 100))"
  by (simp_all add: example_params param2_def param3_def)

lemma example_etude:
  "computeEtudeArchi C 500 (Some example_ruleset) example_projet =
     \<lparr>surface_terrain_m2 = Some 500, emprise_autorisee_m2 = Some 300,
      retraits = \<lparr>rue_m = Some 0, fond_m = None, lateraux_m = None\<rparr>,
      hauteur_max_m = 15,
      hypotheses = \<lparr>hauteur_niveau_m = 3, taux_efficiences_plans = 17 / 20,
                    scenario_projet = ''logement_seul''\<rparr>,
      nb_niveaux_possibles = 5, surface_niveau_typique_m2 = Some 255,
      sdp_totale_potentielle_m2 = Some 1275,
      repartition_fonctions = \<lparr>rdc_m2 = 255, etages_m2 = 1020\<rparr>\<rparr>"
  by (simp add: computeEtudeArchi_def example_ruleset_def example_projet_def)

lemma example_revenus_couts:
  "sdp_totale_potentielle_m2 e = Some 1275 \<Longrightarrow>
   computeRevenusEtCoutsHorsFoncier C e example_profil =
   \<lparr>sdpTotale = 1275,
    ventes =
      \<lparr>logement = \<lparr>m2 = Some 1275, prix_m2 = Some 6000, ca = Some 7650000\<rparr>,
       commerce = \<lparr>m2 = Some 0, prix_m2 = Some 8000, ca = Some 0\<rparr>,
       bureaux = \<lparr>m2 = Some 0, prix_m2 = Some 7500, ca = Some 0\<rparr>,
       ca_total = Some 7650000\<rparr>,
    couts_hors_foncier =
      \<lparr>construction = Some 3187500, honoraires = Some 159375,
       frais_etudes = Some 63750, frais_commerciaux = Some 229500,
       frais_financiers = Some 306000, taxes = Some 229500,
       cout_total_hors_foncier = Some 4175625\<rparr>,
    ca_total_brut = 7650000, cout_total_hors_foncier_brut = 4175625\<rparr>"
  unfolding computeRevenusEtCoutsHorsFoncier_def Let_def
  by (simp add: example_lookups)

lemma example_residuel:
  "valeur_terrain_residuelle
     (computeFoncierEtMarge C 7650000 4175625 1275 500 example_profil fi) = Some 2556375"
  unfolding computeFoncierEtMarge_def Let_def
  by (simp add: example_lookups)

text \<open>
  Claim C6. On a terrain of 500 m2 with footprint ratio 0.6, no cap, height 15 m (floor
  height 3 m, efficiency 0.85) the study gives a footprint of 300 m2, 5 levels, 255 m2
  per level and 1275 m2 of floor area. With the sale price 6000 and the construction
  cost 2500 merged onto the default profile, the revenue is 7 650 000, the construction
  3 187 500, the honoraria 159 375, and with the target margin of 12 % the residual land
  value is the revenue times 0.88 less the total cost without the land, 2 556 375.
\<close>

theorem end_to_end_example:
  "fetchPromoteurProfile profiles
     (Some \<lparr>profile_code = None, overrides = Some example_overrides\<rparr>) = Inr example_profil
   \<and> (let etude = computeEtudeArchi C 500 (Some example_ruleset) example_projet;
           rc = computeRevenusEtCoutsHorsFoncier C etude example_profil;
           fm = computeFoncierEtMarge C (ca_total_brut rc) (cout_total_hors_foncier_brut rc)
                  (sdpTotale rc) 500 example_profil fi
       in emprise_autorisee_m2 etude = Some 300
          \<and> nb_niveaux_possibles etude = 5
          \<and> surface_niveau_typique_m2 etude = Some 255
          \<and> sdp_totale_potentielle_m2 etude = Some 1275
          \<and> ca_total (ventes rc) = Some 7650000
          \<and> ca_total_brut rc = 7650000
          \<and> construction (couts_hors_foncier rc) = Some 3187500
          \<and> honoraires (couts_hors_foncier rc) = Some 159375
          \<and> cout_total_hors_foncier_brut rc
              = 3187500 + 159375 + 63750 + 229500 + 306000 + 229500
          \<and> valeur_terrain_residuelle fm
              = Some (ca_total_brut rc * (88 / 100) - cout_total_hors_foncier_brut rc)
          \<and> valeur_terrain_residuelle fm = Some 2556375)"
proof -
  have p: "fetchPromoteurProfile profiles
             (Some \<lparr>profile_code = None, overrides = Some example_overrides\<rparr>)
           = Inr example_profil"
    by (simp add: fetchPromoteurProfile_def example_profil_def)
  have rc: "computeRevenusEtCoutsHorsFoncier C
              (computeEtudeArchi C 500 (Some example_ruleset) example_projet) example_profil
            = \<lparr>sdpTotale = 1275,
               ventes =
                 \<lparr>logement = \<lparr>m2 = Some 1275, prix_m2 = Some 6000, ca = Some 7650000\<rparr>,
                  commerce = \<lparr>m2 = Some 0, prix_m2 = Some 8000, ca = Some 0\<rparr>,
                  bureaux = \<lparr>m2 = Some 0, prix_m2 = Some 7500, ca = Some 0\<rparr>,
                  ca_total = Some 7650000\<rparr>,
               couts_hors_foncier =
                 \<lparr>construction = Some 3187500, honoraires = Some 159375,
                  frais_etudes = Some 63750, frais_commerciaux = Some 229500,
                  frais_financiers = Some 306000, taxes = Some 229500,
                  cout_total_hors_foncier = Some 4175625\<rparr>,
               ca_total_brut = 7650000, cout_total_hors_foncier_brut = 4175625\<rparr>"
    by (rule example_revenus_couts) (simp add: example_etude)
  show ?thesis
    unfolding Let_def rc
    by (simp add: p example_etude example_residuel)
qed

subsection \<open>The value from the transactions\<close>

lemma safeNumber_numval [simp]: "safeNumber C (numval x) None = x"
  by (cases x) simp_all

lemma collectRatios_filtered:
  assumes "\<And>r. r \<in> set rows \<Longrightarrow> dvf_filter p r"
  shows "collectRatios C rows acc =
           acc @ filter (\<lambda>q. 50 \<le> q \<and> q \<le> 20000)
                   (map (\<lambda>r. the (valeur_fonciere r) / the (surface_terrain r)) rows)"
  using assms
proof (induction rows arbitrary: acc)
  case Nil
  then show ?case by simp
next
  case (Cons r rows)
  have "dvf_filter p r" by (rule Cons.prems) simp
  then obtain v s where vs: "valeur_fonciere r = Some v" "surface_terrain r = Some s"
      "0 < v" "0 < s"
    by (auto simp: dvf_filter_def split: option.splits)
  have "collectRatios C rows acc' =
          acc' @ filter (\<lambda>q. 50 \<le> q \<and> q \<le> 20000)
                   (map (\<lambda>r. the (valeur_fonciere r) / the (surface_terrain r)) rows)" for acc'
    by (rule Cons.IH) (simp add: Cons.prems)
  then show ?case using vs by (simp add: Let_def)
qed

lemma dvf_query_rows:
  assumes "r \<in> set (dvf_query p table)"
  shows "r \<in> set table \<and> dvf_filter p r"
  using assms by (auto simp: dvf_query_def dest: in_set_takeD)

lemma sorted_nth_count_le:
  assumes "sorted s" "i < length s"
  shows "Suc i \<le> length (filter (\<lambda>x. x \<le> s ! i) s)"
proof -
  have "s = take (Suc i) s @ drop (Suc i) s" by simp
  then have "length (filter (\<lambda>x. x \<le> s ! i) s)
             = length (filter (\<lambda>x. x \<le> s ! i) (take (Suc i) s))
               + length (filter (\<lambda>x. x \<le> s ! i) (drop (Suc i) s))"
    by (metis filter_append length_append)
  moreover have "filter (\<lambda>x. x \<le> s ! i) (take (Suc i) s) = take (Suc i) s"
  proof (rule filter_True, clarify)
    fix x assume "x \<in> set (take (Suc i) s)"
    then obtain j where "j < Suc i" "j < length s" "x = s ! j"
      by (auto simp: in_set_conv_nth)
    then show "x \<le> s ! i"
      using assms sorted_nth_mono [of s j i] by simp
  qed
  ultimately show ?thesis using assms by simp
qed

lemma sorted_nth_count_ge:
  assumes "sorted s" "i < length s"
  shows "length s - i \<le> length (filter (\<lambda>x. s ! i \<le> x) s)"
proof -
  have "s = take i s @ drop i s" by simp
  then have "length (filter (\<lambda>x. s ! i \<le> x) s)
             = length (filter (\<lambda>x. s ! i \<le> x) (take i s))
               + length (filter (\<lambda>x. s ! i \<le> x) (drop i s))"
    by (metis filter_append length_append)
  moreover have "filter (\<lambda>x. s ! i \<le> x) (drop i s) = drop i s"
  proof (rule filter_True, clarify)
    fix x assume "x \<in> set (drop i s)"
    then obtain j where "j < length s - i" "x = s ! (i + j)"
      by (auto simp: in_set_conv_nth)
    then show "s ! i \<le> x"
      using assms sorted_nth_mono [of s i "i + j"] by simp
  qed
  ultimately show ?thesis using assms by simp
qed

lemma count_mono:
  assumes "\<And>x. P x \<Longrightarrow> Q x"
  shows "length (filter P xs) \<le> length (filter Q xs)"
  using assms by (induction xs) auto

lemma count_sort: "length (filter P (sort xs)) = length (filter P xs)"
  by (simp add: filter_sort)

lemma median_odd:
  assumes "odd (length ratios)"
  shows "median ratios = Some (sort ratios ! (length ratios div 2))"
proof -
  from assms have "ratios \<noteq> []" by auto
  then have "sort ratios \<noteq> []" by (metis length_0_conv length_sort)
  with assms show ?thesis
    by (simp add: median_def Let_def odd_iff_mod_2_eq_one)
qed

lemma median_even:
  assumes "even (length ratios)" "ratios \<noteq> []"
  shows "median ratios =
           Some ((sort ratios ! (length ratios div 2 - 1) + sort ratios ! (length ratios div 2)) / 2)"
proof -
  from assms have "sort ratios \<noteq> []" by (metis length_0_conv length_sort)
  with assms show ?thesis
    by (simp add: median_def Let_def)
qed

lemma median_None: "median ratios = None \<longleftrightarrow> ratios = []"
proof (cases "ratios = []")
  case True
  then show ?thesis by (simp add: median_def)
next
  case False
  then show ?thesis
    by (cases "even (length ratios)") (simp_all add: median_even median_odd)
qed

lemma median_nonempty: "median ratios = Some m \<Longrightarrow> ratios \<noteq> []"
  by (auto simp: median_def)

lemma even_pos_two: "even (n::nat) \<Longrightarrow> 0 < n \<Longrightarrow> 2 \<le> n"
  by (auto elim!: evenE)

lemma median_Some_odd:
  assumes "median ratios = Some m" "odd (length ratios)"
  shows "m = sort ratios ! (length ratios div 2)"
  using assms by (simp add: median_odd)

lemma median_Some_even:
  assumes "median ratios = Some m" "even (length ratios)"
  shows "m = (sort ratios ! (length ratios div 2 - 1) + sort ratios ! (length ratios div 2)) / 2"
  using assms median_nonempty [OF assms(1)] by (simp add: median_even)

lemma mean_between:
  fixes a b :: rat
  assumes "a \<le> b"
  shows "a \<le> (a + b) / 2" and "(a + b) / 2 \<le> b"
  using assms by (simp_all add: field_simps)

lemma median_half_below:
  assumes "median ratios = Some m"
  shows "length ratios \<le> 2 * length (filter (\<lambda>x. x \<le> m) ratios)"
proof -
  let ?s = "sort ratios" and ?n = "length ratios"
  have ne: "ratios \<noteq> []" using assms by (rule median_nonempty)
  then have n: "0 < ?n" by simp
  show ?thesis
  proof (cases "even ?n")
    case False
    then have m: "m = ?s ! (?n div 2)" using assms by (simp add: median_Some_odd)
    have "Suc (?n div 2) \<le> length (filter (\<lambda>x. x \<le> ?s ! (?n div 2)) ?s)"
      using n by (intro sorted_nth_count_le) simp_all
    then have "Suc (?n div 2) \<le> length (filter (\<lambda>x. x \<le> m) ratios)"
      unfolding m count_sort .
    then show ?thesis by linarith
  next
    case True
    let ?a = "?s ! (?n div 2 - 1)" and ?b = "?s ! (?n div 2)"
    have m: "m = (?a + ?b) / 2" using assms True by (rule median_Some_even)
    have two: "2 \<le> ?n" using True n by (rule even_pos_two)
    have "?a \<le> ?b"
      using two by (intro sorted_nth_mono) simp_all
    then have am: "?a \<le> m" unfolding m by (rule mean_between)
    have "Suc (?n div 2 - 1) \<le> length (filter (\<lambda>x. x \<le> ?a) ?s)"
      using two by (intro sorted_nth_count_le) simp_all
    also have "\<dots> \<le> length (filter (\<lambda>x. x \<le> m) ?s)"
      using am by (intro count_mono) linarith
    finally have "Suc (?n div 2 - 1) \<le> length (filter (\<lambda>x. x \<le> m) ratios)"
      unfolding count_sort .
    with True two show ?thesis by presburger
  qed
qed

lemma median_half_above:
  assumes "median ratios = Some m"
  shows "length ratios \<le> 2 * length (filter (\<lambda>x. m \<le> x) ratios)"
proof -
  let ?s = "sort ratios" and ?n = "length ratios"
  have ne: "ratios \<noteq> []" using assms by (rule median_nonempty)
  then have n: "0 < ?n" by simp
  let ?b = "?s ! (?n div 2)"
  have mb: "m \<le> ?b"
  proof (cases "even ?n")
    case False
    then have "m = ?b" using assms by (simp add: median_Some_odd)
    then show ?thesis by simp
  next
    case True
    have m: "m = (?s ! (?n div 2 - 1) + ?b) / 2" using assms True by (rule median_Some_even)
    have two: "2 \<le> ?n" using True n by (rule even_pos_two)
    have "?s ! (?n div 2 - 1) \<le> ?b"
      using two by (intro sorted_nth_mono) simp_all
    then show ?thesis unfolding m by (rule mean_between)
  qed
  have "length ?s - ?n div 2 \<le> length (filter (\<lambda>x. ?b \<le> x) ?s)"
    using n by (intro sorted_nth_count_ge) simp_all
  also have "\<dots> \<le> length (filter (\<lambda>x. m \<le> x) ?s)"
    using mb by (intro count_mono) linarith
  finally have "length ?s - ?n div 2 \<le> length (filter (\<lambda>x. m \<le> x) ratios)"
    unfolding count_sort .
  then show ?thesis by simp
qed

lemma estimate_enough:
  assumes "30 \<le> length (collectRatios C (dvf_query (depPrefixOf c) table) [])"
    and "median (collectRatios C (dvf_query (depPrefixOf c) table) []) = Some m"
  shows "estimateFoncierFromDvfByCommune C (Data table) c surface =
           \<lparr>valeur_terrain = Some (m * surface),
            meta = Dvf_ok m (length (collectRatios C (dvf_query (depPrefixOf c) table) []))\<rparr>"
  using assms by (simp add: estimateFoncierFromDvfByCommune_def Let_def)

lemma estimate_not_enough:
  assumes "length (collectRatios C (dvf_query (depPrefixOf c) table) []) < 30"
  shows "estimateFoncierFromDvfByCommune C (Data table) c surface =
           \<lparr>valeur_terrain = None,
            meta = Dvf_not_enough_samples
                     (length (collectRatios C (dvf_query (depPrefixOf c) table) []))\<rparr>"
  using assms by (simp add: estimateFoncierFromDvfByCommune_def Let_def)

text \<open>
  Claim C4. The value from the transactions is the median of the surviving ratios
  times the terrain area of the subject. The median is read from the ratios sorted in
  ascending order: the central one for an odd count, the mean of the two central ones
  for an even count, so that half of the ratios at least are not above it and half at
  least are not below it. The median of 100, 200, 300 is 200 and that of
  100, 200, 300, 400 is 250.
\<close>

theorem market_value_is_median:
  "median [100, 200, 300] = Some 200
   \<and> median [100, 200, 300, 400] = Some 250
   \<and> sorted (sort xs) \<and> set (sort xs) = set xs \<and> length (sort xs) = length xs
   \<and> (xs \<noteq> [] \<longrightarrow>
        (\<exists>m. median xs = Some m
           \<and> (odd (length xs) \<longrightarrow> m = sort xs ! (length xs div 2))
           \<and> (even (length xs) \<longrightarrow>
                 m = (sort xs ! (length xs div 2 - 1) + sort xs ! (length xs div 2)) / 2)
           \<and> length xs \<le> 2 * length (filter (\<lambda>x. x \<le> m) xs)
           \<and> length xs \<le> 2 * length (filter (\<lambda>x. m \<le> x) xs)))
   \<and> (30 \<le> length (collectRatios C (dvf_query (depPrefixOf c) table) []) \<longrightarrow>
        (\<exists>m. median (collectRatios C (dvf_query (depPrefixOf c) table) []) = Some m
           \<and> valeur_terrain (estimateFoncierFromDvfByCommune C (Data table) c surface)
               = Some (m * surface)
           \<and> meta (estimateFoncierFromDvfByCommune C (Data table) c surface)
               = Dvf_ok m (length (collectRatios C (dvf_query (depPrefixOf c) table) []))))"
proof -
  have a: "median [100, 200, 300] = Some 200" by (simp add: median_def)
  have b: "median [100, 200, 300, 400] = Some 250" by (simp add: median_def)
  have c: "sorted (sort xs) \<and> set (sort xs) = set xs \<and> length (sort xs) = length xs"
    by simp
  have d: "\<exists>m. median xs = Some m
           \<and> (odd (length xs) \<longrightarrow> m = sort xs ! (length xs div 2))
           \<and> (even (length xs) \<longrightarrow>
                 m = (sort xs ! (length xs div 2 - 1) + sort xs ! (length xs div 2)) / 2)
           \<and> length xs \<le> 2 * length (filter (\<lambda>x. x \<le> m) xs)
           \<and> length xs \<le> 2 * length (filter (\<lambda>x. m \<le> x) xs)" if "xs \<noteq> []"
  proof -
    from that obtain m where m: "median xs = Some m"
      using median_None [of xs] by (cases "median xs") simp_all
    show ?thesis
      using m median_Some_odd [OF m] median_Some_even [OF m] median_half_below [OF m] median_half_above [OF m]
      by blast
  qed
  have e: "\<exists>m. median (collectRatios C (dvf_query (depPrefixOf c) table) []) = Some m
           \<and> valeur_terrain (estimateFoncierFromDvfByCommune C (Data table) c surface)
               = Some (m * surface)
           \<and> meta (estimateFoncierFromDvfByCommune C (Data table) c surface)
               = Dvf_ok m (length (collectRatios C (dvf_query (depPrefixOf c) table) []))"
    if h: "30 \<le> length (collectRatios C (dvf_query (depPrefixOf c) table) [])"
  proof -
    from h have "collectRatios C (dvf_query (depPrefixOf c) table) [] \<noteq> []" by auto
    then obtain m where m: "median (collectRatios C (dvf_query (depPrefixOf c) table) []) = Some m"
      using median_None [of "collectRatios C (dvf_query (depPrefixOf c) table) []"]
      by (cases "median (collectRatios C (dvf_query (depPrefixOf c) table) [])") simp_all
    show ?thesis
      using m by (simp add: estimate_enough [OF h m])
  qed
  from a b c d e show ?thesis by blast
qed

theorem market_value_is_median_witness:
  "[100, 200, 300 :: rat] \<noteq> []
   \<and> 30 \<le> length (collectRatios no_coercion (dvf_query (depPrefixOf ''75056'') example_table30) [])
   \<and> median (collectRatios no_coercion (dvf_query (depPrefixOf ''75056'') example_table30) [])
       = Some 100
   \<and> valeur_terrain
        (estimateFoncierFromDvfByCommune no_coercion (Data example_table30) ''75056'' 500)
       = Some 50000"
proof -
  have r: "collectRatios no_coercion (dvf_query (depPrefixOf ''75056'') example_table30) []
           = 300 # replicate 29 100"
    by code_simp
  have m: "median (300 # replicate 29 100) = Some 100"
    by code_simp
  have h: "30 \<le> length (collectRatios no_coercion
                          (dvf_query (depPrefixOf ''75056'') example_table30) [])"
    unfolding r by simp
  from market_value_is_median [of "[100, 200, 300]" no_coercion "''75056''" example_table30 500] h
  show ?thesis
    by (auto simp: r m)
qed

lemma dvf_query_all:
  assumes "length (filter (dvf_filter p) table) \<le> 1000"
  shows "set (dvf_query p table) = {r \<in> set table. dvf_filter p r}"
  using assms by (simp add: dvf_query_def)

text \<open>
  Claim C5. The rows the query keeps are sales of bare land (no type of premises, no
  built area) with a terrain area above 0 and of 5000 m2 at most and a price above 0.
  The ratios are price by terrain area of these rows, those outside of 50 to 20000
  dropped. With fewer than 30 ratios, and so with 29, there is no value from the
  transactions; with 30 there is one.
\<close>

theorem market_filter_and_threshold:
  "(\<forall>r \<in> set (dvf_query p table).
      r \<in> set table
      \<and> startsWith (code_commune r) p
      \<and> nature_mutation r = Some ''Vente'' \<and> type_local r = None
      \<and> surface_reelle_bati r = Some 0
      \<and> (\<exists>v s. valeur_fonciere r = Some v \<and> surface_terrain r = Some s
                 \<and> 0 < s \<and> s \<le> 5000 \<and> 0 < v))
   \<and> (length (filter (dvf_filter p) table) \<le> 1000 \<longrightarrow>
        set (dvf_query p table) = {r \<in> set table. dvf_filter p r})
   \<and> collectRatios C (dvf_query p table) []
       = filter (\<lambda>q. 50 \<le> q \<and> q \<le> 20000)
           (map (\<lambda>r. the (valeur_fonciere r) / the (surface_terrain r)) (dvf_query p table))
   \<and> (length (collectRatios C (dvf_query (depPrefixOf c) table) []) < 30 \<longrightarrow>
        valeur_terrain (estimateFoncierFromDvfByCommune C (Data table) c surface) = None
        \<and> meta (estimateFoncierFromDvfByCommune C (Data table) c surface)
            = Dvf_not_enough_samples
                (length (collectRatios C (dvf_query (depPrefixOf c) table) [])))
   \<and> (length (collectRatios C (dvf_query (depPrefixOf c) table) []) = 29 \<longrightarrow>
        valeur_terrain (estimateFoncierFromDvfByCommune C (Data table) c surface) = None)
   \<and> (30 \<le> length (collectRatios C (dvf_query (depPrefixOf c) table) []) \<longrightarrow>
        valeur_terrain (estimateFoncierFromDvfByCommune C (Data table) c surface) \<noteq> None)"
proof -
  have a: "r \<in> set table
      \<and> startsWith (code_commune r) p
      \<and> nature_mutation r = Some ''Vente'' \<and> type_local r = None
      \<and> surface_reelle_bati r = Some 0
      \<and> (\<exists>v s. valeur_fonciere r = Some v \<and> surface_terrain r = Some s
                 \<and> 0 < s \<and> s \<le> 5000 \<and> 0 < v)" if "r \<in> set (dvf_query p table)" for r
  proof -
    from that have "r \<in> set table" and f: "dvf_filter p r"
      using dvf_query_rows by blast+
    moreover from f have "\<exists>v s. valeur_fonciere r = Some v \<and> surface_terrain r = Some s
                 \<and> 0 < s \<and> s \<le> 5000 \<and> 0 < v"
      by (cases "valeur_fonciere r"; cases "surface_terrain r") (simp_all add: dvf_filter_def)
    moreover from f have "startsWith (code_commune r) p" "nature_mutation r = Some ''Vente''"
        "type_local r = None" "surface_reelle_bati r = Some 0"
      unfolding dvf_filter_def by blast+
    ultimately show ?thesis by blast
  qed
  have b: "collectRatios C (dvf_query p table) []
       = filter (\<lambda>q. 50 \<le> q \<and> q \<le> 20000)
           (map (\<lambda>r. the (valeur_fonciere r) / the (surface_terrain r)) (dvf_query p table))"
    using collectRatios_filtered [of "dvf_query p table" p C "[]"] dvf_query_rows [of _ p table]
    by simp
  have c: "valeur_terrain (estimateFoncierFromDvfByCommune C (Data table) c surface) = None
        \<and> meta (estimateFoncierFromDvfByCommune C (Data table) c surface)
            = Dvf_not_enough_samples
                (length (collectRatios C (dvf_query (depPrefixOf c) table) []))"
    if "length (collectRatios C (dvf_query (depPrefixOf c) table) []) < 30"
    by (simp add: estimate_not_enough [OF that])
  have d: "valeur_terrain (estimateFoncierFromDvfByCommune C (Data table) c surface) \<noteq> None"
    if h: "30 \<le> length (collectRatios C (dvf_query (depPrefixOf c) table) [])"
  proof -
    from h have "collectRatios C (dvf_query (depPrefixOf c) table) [] \<noteq> []" by auto
    then obtain m where m: "median (collectRatios C (dvf_query (depPrefixOf c) table) []) = Some m"
      using median_None [of "collectRatios C (dvf_query (depPrefixOf c) table) []"]
      by (cases "median (collectRatios C (dvf_query (depPrefixOf c) table) [])") simp_all
    show ?thesis by (simp add: estimate_enough [OF h m])
  qed
  have a': "\<forall>r \<in> set (dvf_query p table).
      r \<in> set table
      \<and> startsWith (code_commune r) p
      \<and> nature_mutation r = Some ''Vente'' \<and> type_local r = None
      \<and> surface_reelle_bati r = Some 0
      \<and> (\<exists>v s. valeur_fonciere r = Some v \<and> surface_terrain r = Some s
                 \<and> 0 < s \<and> s \<le> 5000 \<and> 0 < v)"
    using a by (rule ballI)
  have e: "length (filter (dvf_filter p) table) \<le> 1000 \<longrightarrow>
        set (dvf_query p table) = {r \<in> set table. dvf_filter p r}"
    using dvf_query_all [of p table] by (rule impI)
  have c': "length (collectRatios C (dvf_query (depPrefixOf c) table) []) < 30 \<longrightarrow>
        valeur_terrain (estimateFoncierFromDvfByCommune C (Data table) c surface) = None
        \<and> meta (estimateFoncierFromDvfByCommune C (Data table) c surface)
            = Dvf_not_enough_samples
                (length (collectRatios C (dvf_query (depPrefixOf c) table) []))"
    using c by (rule impI)
  have c'': "length (collectRatios C (dvf_query (depPrefixOf c) table) []) = 29 \<longrightarrow>
        valeur_terrain (estimateFoncierFromDvfByCommune C (Data table) c surface) = None"
    using c by simp
  have d': "30 \<le> length (collectRatios C (dvf_query (depPrefixOf c) table) []) \<longrightarrow>
        valeur_terrain (estimateFoncierFromDvfByCommune C (Data table) c surface) \<noteq> None"
    using d by (rule impI)
  show ?thesis
    by (intro conjI) (rule a' e b c' c'' d')+
qed

theorem market_filter_and_threshold_witness:
  "dvf_query (depPrefixOf ''75056'') example_table29 \<noteq> []
   \<and> length (filter (dvf_filter (depPrefixOf ''75056'')) example_table29) \<le> 1000
   \<and> length (collectRatios no_coercion (dvf_query (depPrefixOf ''75056'') example_table29) [])
       = 29
   \<and> valeur_terrain
        (estimateFoncierFromDvfByCommune no_coercion (Data example_table29) ''75056'' 500)
       = None
   \<and> meta (estimateFoncierFromDvfByCommune no_coercion (Data example_table29) ''75056'' 500)
       = Dvf_not_enough_samples 29
   \<and> 30 \<le> length (collectRatios no_coercion
                       (dvf_query (depPrefixOf ''75056'') example_table30) [])
   \<and> valeur_terrain
        (estimateFoncierFromDvfByCommune no_coercion (Data example_table30) ''75056'' 500)
       \<noteq> None"
proof -
  have q: "dvf_query (depPrefixOf ''75056'') example_table29 \<noteq> []"
    by code_simp
  have f: "length (filter (dvf_filter (depPrefixOf ''75056'')) example_table29) \<le> 1000"
    by code_simp
  have r: "length (collectRatios no_coercion
                     (dvf_query (depPrefixOf ''75056'') example_table29) []) = 29"
    by code_simp
  have r30: "length (collectRatios no_coercion
                     (dvf_query (depPrefixOf ''75056'') example_table30) []) = 30"
    by code_simp
  note t29 = market_filter_and_threshold
               [of "depPrefixOf ''75056''" example_table29 no_coercion "''75056''" 500]
  note t30 = market_filter_and_threshold
               [of "depPrefixOf ''75056''" example_table30 no_coercion "''75056''" 500]
  have a: "valeur_terrain
             (estimateFoncierFromDvfByCommune no_coercion (Data example_table29) ''75056'' 500)
           = None
         \<and> meta (estimateFoncierFromDvfByCommune no_coercion (Data example_table29) ''75056'' 500)
           = Dvf_not_enough_samples 29"
    using t29 [THEN conjunct2, THEN conjunct2, THEN conjunct2, THEN conjunct1] r by simp
  have b: "valeur_terrain
             (estimateFoncierFromDvfByCommune no_coercion (Data example_table30) ''75056'' 500)
           \<noteq> None"
    using t30 [THEN conjunct2, THEN conjunct2, THEN conjunct2, THEN conjunct2, THEN conjunct2]
      r30 by simp
  from q f r r30 a b show ?thesis by simp
qed

subsection \<open>The merge of overrides onto a profile\<close>

lemma keys_update: "fst ` set (AList.update k v al) = insert k (fst ` set al)"
proof -
  have "set (map fst (AList.update k v al)) = insert k (set (map fst al))"
    by (auto simp: update_keys)
  then show ?thesis by simp
qed

lemma map_of_skip_update:
  "map_of (if c then al else AList.update k v al) k =
     (if c then map_of al k else Some v)"
  by (simp add: update_conv')

lemma keys_skip_update:
  "fst ` set (if c then al else AList.update k v al) =
     (if c then fst ` set al else insert k (fst ` set al))"
  by (simp add: keys_update)

lemma mergeKeys_step:
  "mergeKeys base ((key, ov) # ovs) result =
     mergeKeys base ovs
       (if key = ''__proto__'' \<and> map_of base key = None then result
        else AList.update key
               (case (map_of base key, ov) of
                  (Some (JObj b), JObj oo) \<Rightarrow> JObj (deepMerge b oo)
                | _ \<Rightarrow> ov)
               result)"
  by (simp del: deepMerge.simps)

lemma mergeKeys_lookup:
  assumes "distinct (map fst ovs)"
  shows "map_of (mergeKeys base ovs result) k =
           (case map_of ovs k of
              None \<Rightarrow> map_of result k
            | Some ov \<Rightarrow>
                if k = ''__proto__'' \<and> map_of base k = None then map_of result k
                else Some (case (map_of base k, ov) of
                             (Some (JObj b), JObj oo) \<Rightarrow> JObj (deepMerge b oo)
                           | _ \<Rightarrow> ov))"
  using assms
proof (induction ovs arbitrary: result)
  case Nil
  then show ?case by simp
next
  case (Cons e ovs)
  obtain key ov where e: "e = (key, ov)" by (cases e)
  define m where "m = (case (map_of base key, ov) of
                         (Some (JObj b), JObj oo) \<Rightarrow> JObj (deepMerge b oo)
                       | _ \<Rightarrow> ov)"
  define r where "r = (if key = ''__proto__'' \<and> map_of base key = None then result
                       else AList.update key m result)"
  have step: "mergeKeys base (e # ovs) result = mergeKeys base ovs r"
    unfolding e r_def m_def by (rule mergeKeys_step)
  from Cons.prems e have fresh: "map_of ovs key = None" and d: "distinct (map fst ovs)"
    by (auto simp: map_of_eq_None_iff)
  have ih: "map_of (mergeKeys base ovs r) k =
           (case map_of ovs k of
              None \<Rightarrow> map_of r k
            | Some ov \<Rightarrow>
                if k = ''__proto__'' \<and> map_of base k = None then map_of r k
                else Some (case (map_of base k, ov) of
                             (Some (JObj b), JObj oo) \<Rightarrow> JObj (deepMerge b oo)
                           | _ \<Rightarrow> ov))"
    by (rule Cons.IH [OF d])
  show ?case
  proof (cases "k = key")
    case True
    have "map_of (mergeKeys base (e # ovs) result) k = map_of r k"
      unfolding step ih using True fresh by simp
    moreover have "map_of r k =
                     (if k = ''__proto__'' \<and> map_of base k = None then map_of result k
                      else Some m)"
      unfolding r_def True by (rule map_of_skip_update)
    moreover have "map_of (e # ovs) k = Some ov"
      using True e by simp
    ultimately show ?thesis
      unfolding m_def using True
      by (cases "key = ''__proto__''") (simp_all del: deepMerge.simps)
  next
    case False
    have a: "map_of (e # ovs) k = map_of ovs k"
      using False e by simp
    have b: "map_of r k = map_of result k"
      unfolding r_def using False by (simp add: update_conv')
    show ?thesis
      unfolding step ih a b by (rule refl)
  qed
qed

lemma mergeKeys_keys:
  "fst ` set (mergeKeys base ovs result) =
     fst ` set result \<union> {k \<in> fst ` set ovs. k \<noteq> ''__proto__'' \<or> map_of base k \<noteq> None}"
proof (induction ovs arbitrary: result)
  case Nil
  then show ?case by simp
next
  case (Cons e ovs)
  obtain key ov where e: "e = (key, ov)" by (cases e)
  define m where "m = (case (map_of base key, ov) of
                         (Some (JObj b), JObj oo) \<Rightarrow> JObj (deepMerge b oo)
                       | _ \<Rightarrow> ov)"
  define r where "r = (if key = ''__proto__'' \<and> map_of base key = None then result
                       else AList.update key m result)"
  have step: "mergeKeys base (e # ovs) result = mergeKeys base ovs r"
    unfolding e r_def m_def by (rule mergeKeys_step)
  have r: "fst ` set r =
             (if key = ''__proto__'' \<and> map_of base key = None then fst ` set result
              else insert key (fst ` set result))"
    unfolding r_def by (rule keys_skip_update)
  show ?case
  proof (cases "key = ''__proto__'' \<and> map_of base key = None")
    case True
    then show ?thesis
      unfolding step Cons.IH r using e by auto
  next
    case False
    then show ?thesis
      unfolding step Cons.IH r using e by auto
  qed
qed

lemma mergeKeys_distinct:
  "distinct (map fst result) \<Longrightarrow> distinct (map fst (mergeKeys base ovs result))"
proof (induction ovs arbitrary: result)
  case Nil
  then show ?case by simp
next
  case (Cons e ovs)
  obtain key ov where e: "e = (key, ov)" by (cases e)
  define m where "m = (case (map_of base key, ov) of
                         (Some (JObj b), JObj oo) \<Rightarrow> JObj (deepMerge b oo)
                       | _ \<Rightarrow> ov)"
  define r where "r = (if key = ''__proto__'' \<and> map_of base key = None then result
                       else AList.update key m result)"
  have step: "mergeKeys base (e # ovs) result = mergeKeys base ovs r"
    unfolding e r_def m_def by (rule mergeKeys_step)
  have "distinct (map fst r)"
    unfolding r_def using Cons.prems by (simp add: distinct_update)
  then show ?case
    unfolding step by (rule Cons.IH)
qed

lemma deepMerge_lookup:
  assumes "distinct (map fst override)"
  shows "map_of (deepMerge base override) k =
           (case map_of override k of
              None \<Rightarrow> map_of base k
            | Some ov \<Rightarrow>
                if k = ''__proto__'' \<and> map_of base k = None then None
                else Some (case (map_of base k, ov) of
                             (Some (JObj b), JObj oo) \<Rightarrow> JObj (deepMerge b oo)
                           | _ \<Rightarrow> ov))"
  using mergeKeys_lookup [OF assms, of base base k] by (auto split: option.splits)

text \<open>
  The rules of the merge, for every key but a \<^verbatim>\<open>__proto__\<close> that the base does not
  hold: a key of the base alone keeps its value and a key of the override alone gets the
  override's value; where both hold an object under a key the two are merged in turn; in
  every other conflict the value of the override replaces that of the base. The keys of
  the result are those of the base and those of the override other than
  \<^verbatim>\<open>__proto__\<close>. This is the merge applied to the stored parameters when the lookup
  of the profile succeeds and to the built-in defaults when there is no code or the
  lookup fails, and a failed lookup returns a profile, not an error.
\<close>

lemma deepMerge_rules:
  "(distinct (map fst override) \<and> (k \<noteq> ''__proto__'' \<or> map_of base k \<noteq> None) \<longrightarrow>
      (map_of override k = None \<longrightarrow> map_of (deepMerge base override) k = map_of base k)
    \<and> (map_of base k = None \<and> map_of override k = Some ov \<longrightarrow>
         map_of (deepMerge base override) k = Some ov)
    \<and> (map_of base k = Some (JObj b) \<and> map_of override k = Some (JObj oo) \<longrightarrow>
         map_of (deepMerge base override) k = Some (JObj (deepMerge b oo)))
    \<and> (map_of override k = Some ov
         \<and> ((\<forall>b. map_of base k \<noteq> Some (JObj b)) \<or> (\<forall>oo. ov \<noteq> JObj oo)) \<longrightarrow>
         map_of (deepMerge base override) k = Some ov))
   \<and> fst ` set (deepMerge base override)
       = fst ` set base \<union> (fst ` set override - {''__proto__''})
   \<and> (distinct (map fst base) \<longrightarrow> distinct (map fst (deepMerge base override)))
   \<and> withOverrides base (Some override) = deepMerge base override
   \<and> withOverrides base None = base
   \<and> fetchPromoteurProfile profiles None
       = Inr \<lparr>code = ''DEFAULT'', params = defaults, source = FromDefault\<rparr>
   \<and> (profile_code fin = None \<or> profile_code fin = Some [] \<longrightarrow>
        fetchPromoteurProfile profiles (Some fin)
        = Inr \<lparr>code = ''DEFAULT'', params = withOverrides defaults (overrides fin),
               source = FromDefault\<rparr>)
   \<and> (profile_code fin = Some pc \<and> pc \<noteq> []
        \<and> (profiles pc = Errored \<or> profiles pc = Data None) \<longrightarrow>
        fetchPromoteurProfile profiles (Some fin)
        = Inr \<lparr>code = pc, params = withOverrides defaults (overrides fin),
               source = FromDefault\<rparr>)
   \<and> (profile_code fin = Some pc \<and> pc \<noteq> [] \<and> profiles pc = Data (Some d) \<longrightarrow>
        fetchPromoteurProfile profiles (Some fin)
        = Inr \<lparr>code = row_code d, params = withOverrides (row_params d) (overrides fin),
               source = FromDb\<rparr>)"
proof -
  have m: "(map_of override k = None \<longrightarrow> map_of (deepMerge base override) k = map_of base k)
    \<and> (map_of base k = None \<and> map_of override k = Some ov \<longrightarrow>
         map_of (deepMerge base override) k = Some ov)
    \<and> (map_of base k = Some (JObj b) \<and> map_of override k = Some (JObj oo) \<longrightarrow>
         map_of (deepMerge base override) k = Some (JObj (deepMerge b oo)))
    \<and> (map_of override k = Some ov
         \<and> ((\<forall>b. map_of base k \<noteq> Some (JObj b)) \<or> (\<forall>oo. ov \<noteq> JObj oo)) \<longrightarrow>
         map_of (deepMerge base override) k = Some ov)"
    if d: "distinct (map fst override)"
      and c: "k \<noteq> ''__proto__'' \<or> map_of base k \<noteq> None"
  proof -
    from c have n: "\<not> (k = ''__proto__'' \<and> map_of base k = None)"
      by blast
    show ?thesis
      unfolding deepMerge_lookup [OF d] if_not_P [OF n]
      by (auto split: option.splits json.splits)
  qed
  have own: "(k \<noteq> ''__proto__'' \<or> map_of base k \<noteq> None) = (k \<noteq> ''__proto__'' \<or> k \<in> fst ` set base)"
    for k
    by (simp add: map_of_eq_None_iff)
  have keys: "fst ` set (deepMerge base override)
                = fst ` set base \<union> (fst ` set override - {''__proto__''})"
    unfolding deepMerge.simps mergeKeys_keys own by blast
  have dist: "distinct (map fst base) \<longrightarrow> distinct (map fst (deepMerge base override))"
    by (simp add: mergeKeys_distinct)
  have w: "withOverrides base (Some override) = deepMerge base override"
      "withOverrides base None = base"
    by (simp_all del: deepMerge.simps)
  have p0: "fetchPromoteurProfile profiles None
       = Inr \<lparr>code = ''DEFAULT'', params = defaults, source = FromDefault\<rparr>"
    by (simp add: fetchPromoteurProfile_def)
  have p1: "profile_code fin = None \<or> profile_code fin = Some [] \<longrightarrow>
        fetchPromoteurProfile profiles (Some fin)
        = Inr \<lparr>code = ''DEFAULT'', params = withOverrides defaults (overrides fin),
               source = FromDefault\<rparr>"
    by (auto simp: fetchPromoteurProfile_def)
  have p2: "profile_code fin = Some pc \<and> pc \<noteq> []
        \<and> (profiles pc = Errored \<or> profiles pc = Data None) \<longrightarrow>
        fetchPromoteurProfile profiles (Some fin)
        = Inr \<lparr>code = pc, params = withOverrides defaults (overrides fin),
               source = FromDefault\<rparr>"
    by (auto simp: fetchPromoteurProfile_def)
  have p3: "profile_code fin = Some pc \<and> pc \<noteq> [] \<and> profiles pc = Data (Some d) \<longrightarrow>
        fetchPromoteurProfile profiles (Some fin)
        = Inr \<lparr>code = row_code d, params = withOverrides (row_params d) (overrides fin),
               source = FromDb\<rparr>"
    by (auto simp: fetchPromoteurProfile_def)
  from m have m': "distinct (map fst override) \<and> (k \<noteq> ''__proto__'' \<or> map_of base k \<noteq> None) \<longrightarrow>
      (map_of override k = None \<longrightarrow> map_of (deepMerge base override) k = map_of base k)
    \<and> (map_of base k = None \<and> map_of override k = Some ov \<longrightarrow>
         map_of (deepMerge base override) k = Some ov)
    \<and> (map_of base k = Some (JObj b) \<and> map_of override k = Some (JObj oo) \<longrightarrow>
         map_of (deepMerge base override) k = Some (JObj (deepMerge b oo)))
    \<and> (map_of override k = Some ov
         \<and> ((\<forall>b. map_of base k \<noteq> Some (JObj b)) \<or> (\<forall>oo. ov \<noteq> JObj oo)) \<longrightarrow>
         map_of (deepMerge base override) k = Some ov)"
    by blast
  show ?thesis
    by (intro conjI) (rule m' keys dist w p0 p1 p2 p3)+
qed

text \<open>The rules at the overrides of the worked example and on a small object.\<close>

lemma deepMerge_rules_example:
  "distinct (map fst example_overrides)
   \<and> map_of defaults ''objectif'' = Some (JObj [(''marge_cible_pct_sur_ca'', JNum (12 / 100))])
   \<and> map_of example_overrides ''objectif''
       = Some (JObj [(''marge_cible_pct_sur_ca'', JNum (12 / 100))])
   \<and> map_of (deepMerge defaults example_overrides) ''objectif''
       = Some (JObj (deepMerge [(''marge_cible_pct_sur_ca'', JNum (12 / 100))]
                               [(''marge_cible_pct_sur_ca'', JNum (12 / 100))]))
   \<and> map_of (deepMerge [(''a'', JNum 1), (''b'', JNum 2)] [(''b'', JNum 3), (''c'', JNum 4)])
        ''a'' = Some (JNum 1)
   \<and> map_of (deepMerge [(''a'', JNum 1), (''b'', JNum 2)] [(''b'', JNum 3), (''c'', JNum 4)])
        ''b'' = Some (JNum 3)
   \<and> map_of (deepMerge [(''a'', JNum 1), (''b'', JNum 2)] [(''b'', JNum 3), (''c'', JNum 4)])
        ''c'' = Some (JNum 4)
   \<and> fetchPromoteurProfile no_profiles
        (Some \<lparr>profile_code = Some ''PREMIUM'', overrides = Some example_overrides\<rparr>)
       = Inr \<lparr>code = ''PREMIUM'', params = deepMerge defaults example_overrides,
              source = FromDefault\<rparr>
   \<and> fetchPromoteurProfile premium_profiles
        (Some \<lparr>profile_code = Some ''PREMIUM'', overrides = Some example_overrides\<rparr>)
       = Inr \<lparr>code = ''PREMIUM'',
              params =
                deepMerge [(''objectif'', JObj [(''marge_cible_pct_sur_ca'', JNum (15 / 100))])]
                  example_overrides,
              source = FromDb\<rparr>"
proof -
  have d1: "distinct (map fst example_overrides)"
    by (simp add: example_overrides_def)
  have b1: "map_of defaults ''objectif''
            = Some (JObj [(''marge_cible_pct_sur_ca'', JNum (12 / 100))])"
    by (simp add: defaults_def)
  have o1: "map_of example_overrides ''objectif''
            = Some (JObj [(''marge_cible_pct_sur_ca'', JNum (12 / 100))])"
    by (simp add: example_overrides_def)
  have k1: "''objectif'' \<noteq> ''__proto__''" "''a'' \<noteq> ''__proto__''"
    "''b'' \<noteq> ''__proto__''" "''c'' \<noteq> ''__proto__''"
    by simp_all
  have c1: "map_of (deepMerge defaults example_overrides) ''objectif''
       = Some (JObj (deepMerge [(''marge_cible_pct_sur_ca'', JNum (12 / 100))]
                               [(''marge_cible_pct_sur_ca'', JNum (12 / 100))]))"
    using deepMerge_rules
            [where base = defaults and override = example_overrides and k = "''objectif''"
               and b = "[(''marge_cible_pct_sur_ca'', JNum (12 / 100))]"
               and oo = "[(''marge_cible_pct_sur_ca'', JNum (12 / 100))]",
             THEN conjunct1]
      d1 b1 o1 k1(1)
    by blast
  have d2: "distinct (map fst [(''b'', JNum 3), (''c'', JNum 4)])"
    by simp
  have c2: "map_of (deepMerge [(''a'', JNum 1), (''b'', JNum 2)] [(''b'', JNum 3), (''c'', JNum 4)])
              ''a'' = Some (JNum 1)"
    using deepMerge_rules
            [where base = "[(''a'', JNum 1), (''b'', JNum 2)]"
               and override = "[(''b'', JNum 3), (''c'', JNum 4)]" and k = "''a''",
             THEN conjunct1]
      d2 k1(2)
    by simp
  have c3: "map_of (deepMerge [(''a'', JNum 1), (''b'', JNum 2)] [(''b'', JNum 3), (''c'', JNum 4)])
              ''b'' = Some (JNum 3)"
    using deepMerge_rules
            [where base = "[(''a'', JNum 1), (''b'', JNum 2)]"
               and override = "[(''b'', JNum 3), (''c'', JNum 4)]" and k = "''b''"
               and ov = "JNum 3",
             THEN conjunct1]
      d2 k1(3)
    by simp
  have c4: "map_of (deepMerge [(''a'', JNum 1), (''b'', JNum 2)] [(''b'', JNum 3), (''c'', JNum 4)])
              ''c'' = Some (JNum 4)"
    using deepMerge_rules
            [where base = "[(''a'', JNum 1), (''b'', JNum 2)]"
               and override = "[(''b'', JNum 3), (''c'', JNum 4)]" and k = "''c''"
               and ov = "JNum 4",
             THEN conjunct1]
      d2 k1(4)
    by simp
  have n: "no_profiles ''PREMIUM'' = Data None"
    by (simp add: no_profiles_def)
  have p: "premium_profiles ''PREMIUM''
           = Data (Some \<lparr>row_code = ''PREMIUM'',
                          row_params =
                            [(''objectif'',
                              JObj [(''marge_cible_pct_sur_ca'', JNum (15 / 100))])]\<rparr>)"
    by (simp add: premium_profiles_def)
  note tail = conjunct2 [THEN conjunct2, THEN conjunct2, THEN conjunct2, THEN conjunct2,
                THEN conjunct2, THEN conjunct2]
  have c5: "fetchPromoteurProfile no_profiles
        (Some \<lparr>profile_code = Some ''PREMIUM'', overrides = Some example_overrides\<rparr>)
       = Inr \<lparr>code = ''PREMIUM'', params = deepMerge defaults example_overrides,
              source = FromDefault\<rparr>"
    using deepMerge_rules
            [where profiles = no_profiles and pc = "''PREMIUM''"
               and fin = "\<lparr>profile_code = Some ''PREMIUM'', overrides = Some example_overrides\<rparr>",
             THEN tail, THEN conjunct1]
      n
    by (simp del: deepMerge.simps)
  have c6: "fetchPromoteurProfile premium_profiles
        (Some \<lparr>profile_code = Some ''PREMIUM'', overrides = Some example_overrides\<rparr>)
       = Inr \<lparr>code = ''PREMIUM'',
              params =
                deepMerge [(''objectif'', JObj [(''marge_cible_pct_sur_ca'', JNum (15 / 100))])]
                  example_overrides,
              source = FromDb\<rparr>"
    using deepMerge_rules
            [where profiles = premium_profiles and pc = "''PREMIUM''"
               and fin = "\<lparr>profile_code = Some ''PREMIUM'', overrides = Some example_overrides\<rparr>"
               and d = "\<lparr>row_code = ''PREMIUM'',
                          row_params =
                            [(''objectif'',
                              JObj [(''marge_cible_pct_sur_ca'', JNum (15 / 100))])]\<rparr>",
             THEN tail, THEN conjunct2]
      p
    by (simp del: deepMerge.simps)
  show ?thesis
    by (intro conjI) (rule d1 b1 o1 c1 c2 c3 c4 c5 c6)+
qed

text \<open>
  A \<^verbatim>\<open>__proto__\<close> of the override that the base does not hold is under no key of the
  result, whatever its value and whatever else the override holds.
\<close>

lemma deepMerge_proto_absent:
  assumes "map_of base ''__proto__'' = None"
  shows "map_of (deepMerge base override) ''__proto__'' = None"
proof -
  from assms have "''__proto__'' \<notin> fst ` set base"
    by (simp add: map_of_eq_None_iff)
  with assms have "''__proto__'' \<notin> fst ` set (deepMerge base override)"
    unfolding deepMerge.simps mergeKeys_keys by simp
  then show ?thesis
    by (simp add: map_of_eq_None_iff del: deepMerge.simps)
qed


subsection \<open>Land cost and margin of the bilan\<close>

lemma math_round_nonneg: "0 \<le> x \<Longrightarrow> 0 \<le> math_round x"
  by (simp add: math_round_def)

lemma round_js_0 [simp]: "round_js (Some v) 0 = Some (of_int (math_round v))"
  by simp

lemma orElse_none_saisi [simp]: "orElse m ''none'' = ''saisi'' \<longleftrightarrow> m = Some ''saisi''"
  by (cases m) auto

lemma cfm_cout_nonneg:
  "\<exists>c. cout_foncier_effectif (computeFoncierEtMarge C rv cs sdp st p fi) = Some c \<and> 0 \<le> c"
  unfolding computeFoncierEtMarge_def Let_def
  by (auto simp: math_round_nonneg split: option.splits)

lemma cfm_saisi:
  assumes "mode f = Some ''saisi''"
    and "safeNumber C (valeur_terrain_saisi f) None = Some v"
    and "0 < v"
  shows "cout_foncier_effectif (computeFoncierEtMarge C rv cs sdp st p (Some f))
           = round_js (Some v) 0"
    and "cout_total_effectif (computeFoncierEtMarge C rv cs sdp st p (Some f))
           = round_js (Some (cs + v)) 0"
    and "montant (marge (computeFoncierEtMarge C rv cs sdp st p (Some f)))
           = round_js (Some (rv - (cs + v))) 0"
    and "fd_mode (foncier_detail (computeFoncierEtMarge C rv cs sdp st p (Some f))) = ''saisi''"
    and "fd_valeur_terrain_saisi (foncier_detail (computeFoncierEtMarge C rv cs sdp st p (Some f)))
           = round_js (Some v) 0"
  using assms unfolding computeFoncierEtMarge_def Let_def
  by simp_all

lemma cfm_zero:
  assumes "case fi of
             None \<Rightarrow> True
           | Some f \<Rightarrow>
               mode f \<noteq> Some ''saisi''
               \<or> (case safeNumber C (valeur_terrain_saisi f) None of
                     None \<Rightarrow> True
                   | Some v \<Rightarrow> v \<le> 0)"
  shows "cout_foncier_effectif (computeFoncierEtMarge C rv cs sdp st p fi) = Some 0"
    and "cout_total_effectif (computeFoncierEtMarge C rv cs sdp st p fi) = round_js (Some cs) 0"
  using assms unfolding computeFoncierEtMarge_def Let_def
  by (auto split: option.splits)



lemma cfm_residuelle:
  "valeur_terrain_residuelle (computeFoncierEtMarge C rv cs sdp st p fi)
     = round_js
         (Some (rv * (1 - orElse (safeNumber C (param2 (params p) ''objectif''
                                     ''marge_cible_pct_sur_ca'') (Some (12 / 100))) (12 / 100))
                - cs)) 0"
  unfolding computeFoncierEtMarge_def Let_def
  by simp

lemma cfm_mode:
  assumes "mode f = Some m" "m \<in> {''saisi'', ''residuel'', ''none'', ''dvf''}"
  shows "fd_mode (foncier_detail (computeFoncierEtMarge C rv cs sdp st p (Some f))) = m"
  using assms unfolding computeFoncierEtMarge_def Let_def
  by auto

lemma bilan_other_mode:
  assumes "case fi of None \<Rightarrow> True | Some f \<Rightarrow> mode f \<noteq> Some ''dvf''"
  shows "bilan C t pl pj fi s rs p =
           (let e = computeEtudeArchi C s rs pj;
                rc = computeRevenusEtCoutsHorsFoncier C e p
            in responsePayload e rc
                 (passeFoncierEtMarge C rc s p
                    (case fi of
                       Some f \<Rightarrow> f
                     | None \<Rightarrow> \<lparr>mode = Some ''none'', valeur_terrain_saisi = None\<rparr>))
                 None)"
  using assms
  by (cases fi) (simp_all add: bilan_def resolveDvf_def fallbackResiduel_def Let_def)

lemma bilan_dvf_resolved:
  assumes "mode f = Some ''dvf''"
    and "valeur_terrain (estimateFoncierFromDvfByCommune C t (commune_insee pl) s) = Some vt"
  shows "bilan C t pl pj (Some f) s rs p =
           (let e = computeEtudeArchi C s rs pj;
                rc = computeRevenusEtCoutsHorsFoncier C e p
            in responsePayload e rc
                 (passeFoncierEtMarge C rc s p
                    \<lparr>mode = Some ''saisi'', valeur_terrain_saisi = Some (JNum vt)\<rparr>)
                 (Some \<lparr>di_meta = meta (estimateFoncierFromDvfByCommune C t (commune_insee pl) s),
                        valeur_terrain_estimee = Some vt,
                        used_for_foncier = True,
                        human_message = None,
                        fallback_mode = None,
                        valeur_terrain_residuelle_utilisee = None\<rparr>))"
  using assms
  by (simp add: bilan_def resolveDvf_def fallbackResiduel_def Let_def)

lemma bilan_dvf_fallback:
  assumes "mode f = Some ''dvf''"
    and "valeur_terrain (estimateFoncierFromDvfByCommune C t (commune_insee pl) s) = None"
  shows "bilan C t pl pj (Some f) s rs p =
           (let e = computeEtudeArchi C s rs pj;
                rc = computeRevenusEtCoutsHorsFoncier C e p;
                r = orElse (valeur_terrain_residuelle (passeFoncierEtMarge C rc s p f)) 0
            in responsePayload e rc
                 (passeFoncierEtMarge C rc s p
                    \<lparr>mode = Some ''saisi'',
                     valeur_terrain_saisi = Some (JNum (if r > 0 then r else 0))\<rparr>)
                 (Some \<lparr>di_meta = meta (estimateFoncierFromDvfByCommune C t (commune_insee pl) s),
                        valeur_terrain_estimee = None,
                        used_for_foncier = True,
                        human_message = Some Utilise_la_valeur_residuelle,
                        fallback_mode = Some ''residuel_from_marge'',
                        valeur_terrain_residuelle_utilisee = Some r\<rparr>))"
  using assms
  by (simp add: bilan_def resolveDvf_def fallbackResiduel_def Let_def)

lemma bilan_is_passe:
  "\<exists>fe info.
     bilan C t pl pj fi s rs p =
       responsePayload (computeEtudeArchi C s rs pj)
         (computeRevenusEtCoutsHorsFoncier C (computeEtudeArchi C s rs pj) p)
         (passeFoncierEtMarge C
            (computeRevenusEtCoutsHorsFoncier C (computeEtudeArchi C s rs pj) p) s p fe)
         info"
proof (cases "case fi of None \<Rightarrow> True | Some f \<Rightarrow> mode f \<noteq> Some ''dvf''")
  case True
  then show ?thesis
    using bilan_other_mode [OF True, of C t pl pj s rs p] by (simp add: Let_def) blast
next
  case False
  then obtain f where f: "fi = Some f" "mode f = Some ''dvf''"
    by (cases fi) auto
  show ?thesis
  proof (cases "valeur_terrain (estimateFoncierFromDvfByCommune C t (commune_insee pl) s)")
    case None
    show ?thesis
      unfolding f(1) bilan_dvf_fallback [OF f(2) None] Let_def by blast
  next
    case (Some vt)
    show ?thesis
      unfolding f(1) bilan_dvf_resolved [OF f(2) Some] Let_def by blast
  qed
qed

lemma payload_fields [simp]:
  "payload_etude_archi (responsePayload e rc fm info) = e"
  "bilan_ventes (payload_bilan (responsePayload e rc fm info)) = ventes rc"
  "couts_foncier (bilan_couts (payload_bilan (responsePayload e rc fm info)))
     = cout_foncier_effectif fm"
  "couts_lignes (bilan_couts (payload_bilan (responsePayload e rc fm info)))
     = couts_hors_foncier rc"
  "couts_cout_total (bilan_couts (payload_bilan (responsePayload e rc fm info)))
     = cout_total_effectif fm"
  "bilan_marge (payload_bilan (responsePayload e rc fm info)) = marge fm"
  "valeur_residuelle_terrain_theorique (payload_bilan (responsePayload e rc fm info))
     = valeur_terrain_residuelle fm"
  "marge_developpeur (payload_bilan (responsePayload e rc fm info)) = appreciation (marge fm)"
  "bilan_foncier_detail (payload_bilan (responsePayload e rc fm info)) = foncier_detail fm"
  "bilan_dvf_info (payload_bilan (responsePayload e rc fm info)) = info"
  by (simp_all add: responsePayload_def)

lemma passe_residuelle:
  "\<exists>k. \<forall>fe. valeur_terrain_residuelle (passeFoncierEtMarge C rc s p fe) = Some (of_int k)"
  unfolding passeFoncierEtMarge_def cfm_residuelle by simp

lemma passe_after_fallback:
  assumes "r = orElse (valeur_terrain_residuelle (passeFoncierEtMarge C rc s p f)) 0"
  shows "cout_foncier_effectif
           (passeFoncierEtMarge C rc s p
              \<lparr>mode = Some ''saisi'',
               valeur_terrain_saisi = Some (JNum (if r > 0 then r else 0))\<rparr>)
         = Some (max 0 r)"
    and "valeur_terrain_residuelle
           (passeFoncierEtMarge C rc s p
              \<lparr>mode = Some ''saisi'',
               valeur_terrain_saisi = Some (JNum (if r > 0 then r else 0))\<rparr>)
         = Some r"
proof -
  obtain k where k: "\<And>fe. valeur_terrain_residuelle (passeFoncierEtMarge C rc s p fe)
                            = Some (of_int k)"
    using passe_residuelle [of C rc s p] by blast
  from assms have r: "r = of_int k" by (simp add: k)
  show "valeur_terrain_residuelle
           (passeFoncierEtMarge C rc s p
              \<lparr>mode = Some ''saisi'',
               valeur_terrain_saisi = Some (JNum (if r > 0 then r else 0))\<rparr>)
         = Some r"
    by (simp add: k r)
  show "cout_foncier_effectif
           (passeFoncierEtMarge C rc s p
              \<lparr>mode = Some ''saisi'',
               valeur_terrain_saisi = Some (JNum (if r > 0 then r else 0))\<rparr>)
         = Some (max 0 r)"
  proof (cases "r > 0")
    case True
    have "cout_foncier_effectif
            (passeFoncierEtMarge C rc s p
               \<lparr>mode = Some ''saisi'', valeur_terrain_saisi = Some (JNum r)\<rparr>)
          = round_js (Some r) 0"
      unfolding passeFoncierEtMarge_def using True by (intro cfm_saisi) simp_all
    with True show ?thesis by (simp add: r)
  next
    case False
    have "cout_foncier_effectif
            (passeFoncierEtMarge C rc s p
               \<lparr>mode = Some ''saisi'', valeur_terrain_saisi = Some (JNum 0)\<rparr>)
          = Some 0"
      unfolding passeFoncierEtMarge_def by (intro cfm_zero) simp
    with False show ?thesis by simp
  qed
qed




lemma serve_dvf_independent:
  assumes "case body req of
             None \<Rightarrow> True
           | Some b \<Rightarrow> (case foncier b of None \<Rightarrow> True | Some f \<Rightarrow> mode f \<noteq> Some ''dvf'')"
  shows "serve C (db\<lparr>dvf_2025_s1_typed := t\<rparr>) req = serve C (db\<lparr>dvf_2025_s1_typed := t'\<rparr>) req"
proof (cases "body req")
  case None
  then show ?thesis by (simp add: serve_def)
next
  case (Some b)
  with assms have o: "case foncier b of None \<Rightarrow> True | Some f \<Rightarrow> mode f \<noteq> Some ''dvf''"
    by simp
  have s1: "cadastre_parcelles (db\<lparr>dvf_2025_s1_typed := u\<rparr>) = cadastre_parcelles db"
    and s2: "plu_ruleset_normalized (db\<lparr>dvf_2025_s1_typed := u\<rparr>) = plu_ruleset_normalized db"
    and s3: "promoteur_profiles (db\<lparr>dvf_2025_s1_typed := u\<rparr>) = promoteur_profiles db"
    and s4: "dvf_2025_s1_typed (db\<lparr>dvf_2025_s1_typed := u\<rparr>) = u" for u
    by simp_all
  show ?thesis
    unfolding serve_def Some option.case s1 s2 s3 s4 bilan_other_mode [OF o] by (rule refl)
qed

lemma serve_example:
  "serve C (example_tables t) (example_request (JNum s) fi) =
     Success (bilan C t example_plu example_projet fi s (Some example_ruleset) example_profil)"
  by (simp add: serve_def example_tables_def example_request_def resolveSurface_def
        fetchPluRuleset_def no_rulesets_def fetchPromoteurProfile_def example_profil_def
        example_ruleset_def example_plu_def
      del: deepMerge.simps)

lemma estimate_unresolved:
  "valeur_terrain (estimateFoncierFromDvfByCommune C t c s) = None \<longleftrightarrow>
     (t = Thrown \<or> t = Errored
      \<or> (\<exists>table. t = Data table
            \<and> length (collectRatios C (dvf_query (depPrefixOf c) table) []) < 30))"
proof (cases t)
  case Thrown
  then show ?thesis by (simp add: estimateFoncierFromDvfByCommune_def)
next
  case Errored
  then show ?thesis by (simp add: estimateFoncierFromDvfByCommune_def)
next
  case (Data table)
  show ?thesis
  proof (cases "length (collectRatios C (dvf_query (depPrefixOf c) table) []) < 30")
    case True
    then show ?thesis unfolding Data by (simp add: estimate_not_enough)
  next
    case False
    then have h: "30 \<le> length (collectRatios C (dvf_query (depPrefixOf c) table) [])" by simp
    then have "collectRatios C (dvf_query (depPrefixOf c) table) [] \<noteq> []" by auto
    then obtain m where m: "median (collectRatios C (dvf_query (depPrefixOf c) table) []) = Some m"
      using median_None [of "collectRatios C (dvf_query (depPrefixOf c) table) []"]
      by (cases "median (collectRatios C (dvf_query (depPrefixOf c) table) [])") simp_all
    show ?thesis unfolding Data using False by (simp add: estimate_enough [OF h m])
  qed
qed

lemma estimate_reason:
  "reason (meta (estimateFoncierFromDvfByCommune C t c s)) = ''ok'' \<longleftrightarrow>
     valeur_terrain (estimateFoncierFromDvfByCommune C t c s) \<noteq> None"
proof (cases t)
  case Thrown
  then show ?thesis by (simp add: estimateFoncierFromDvfByCommune_def)
next
  case Errored
  then show ?thesis by (simp add: estimateFoncierFromDvfByCommune_def)
next
  case (Data table)
  show ?thesis
  proof (cases "length (collectRatios C (dvf_query (depPrefixOf c) table) []) < 30")
    case True
    then show ?thesis unfolding Data by (simp add: estimate_not_enough)
  next
    case False
    then have h: "30 \<le> length (collectRatios C (dvf_query (depPrefixOf c) table) [])" by simp
    then have "collectRatios C (dvf_query (depPrefixOf c) table) [] \<noteq> []" by auto
    then obtain m where m: "median (collectRatios C (dvf_query (depPrefixOf c) table) []) = Some m"
      using median_None [of "collectRatios C (dvf_query (depPrefixOf c) table) []"]
      by (cases "median (collectRatios C (dvf_query (depPrefixOf c) table) [])") simp_all
    show ?thesis unfolding Data by (simp add: estimate_enough [OF h m])
  qed
qed

subsection \<open>The declared mode and the fallback to the residual value\<close>

text \<open>
  A declared value of -5 is not used as the land cost: the response echoes it and
  charges 0.
\<close>

theorem declared_value_counterexample:
  "(case serve no_coercion (example_tables (Data []))
           (example_request (JNum 500)
              (Some \<lparr>mode = Some ''saisi'', valeur_terrain_saisi = Some (JNum (- 5))\<rparr>)) of
      Success P \<Rightarrow>
        fd_mode (bilan_foncier_detail (payload_bilan P)) = ''saisi''
        \<and> fd_valeur_terrain_saisi (bilan_foncier_detail (payload_bilan P)) = Some (- 5)
        \<and> couts_foncier (bilan_couts (payload_bilan P)) = Some 0
    | _ \<Rightarrow> False)"
  unfolding serve_example by code_simp

text \<open>
  Claim C8, as the program has it. In the declared mode a declared value that is
  positive is the land cost as it stands: it enters the total cost and the margin
  unchanged, and the response reports it rounded to the unit as every amount; a declared
  value that is missing or not positive gives a land cost of 0. In every mode but that
  of the transactions the bilan and the response are the same whatever the table of
  transactions and whatever the reply to a query of it, and carry no information on
  transactions. In the mode \<^verbatim>\<open>none\<close>, and without a land input, the land cost
  is 0.
\<close>

theorem declared_mode:
  "(mode f = Some ''saisi'' \<and> safeNumber C (valeur_terrain_saisi f) None = Some v \<and> 0 < v \<longrightarrow>
      couts_foncier (bilan_couts (payload_bilan (bilan C t pl pj (Some f) s rs p)))
        = round_js (Some v) 0
      \<and> couts_cout_total (bilan_couts (payload_bilan (bilan C t pl pj (Some f) s rs p)))
        = round_js
            (Some (cout_total_hors_foncier_brut
                     (computeRevenusEtCoutsHorsFoncier C (computeEtudeArchi C s rs pj) p) + v)) 0
      \<and> montant (bilan_marge (payload_bilan (bilan C t pl pj (Some f) s rs p)))
        = round_js
            (Some (ca_total_brut
                     (computeRevenusEtCoutsHorsFoncier C (computeEtudeArchi C s rs pj) p)
                   - (cout_total_hors_foncier_brut
                        (computeRevenusEtCoutsHorsFoncier C (computeEtudeArchi C s rs pj) p)
                      + v))) 0
      \<and> fd_mode (bilan_foncier_detail (payload_bilan (bilan C t pl pj (Some f) s rs p)))
        = ''saisi'')
   \<and> (mode f = Some ''saisi''
        \<and> (safeNumber C (valeur_terrain_saisi f) None = None
            \<or> (\<exists>v. safeNumber C (valeur_terrain_saisi f) None = Some v \<and> v \<le> 0)) \<longrightarrow>
        couts_foncier (bilan_couts (payload_bilan (bilan C t pl pj (Some f) s rs p))) = Some 0)
   \<and> ((case fi of None \<Rightarrow> True | Some g \<Rightarrow> mode g \<noteq> Some ''dvf'') \<longrightarrow>
        bilan C t pl pj fi s rs p = bilan C t' pl pj fi s rs p
        \<and> bilan_dvf_info (payload_bilan (bilan C t pl pj fi s rs p)) = None)
   \<and> ((case body req of
          None \<Rightarrow> True
        | Some b \<Rightarrow> (case foncier b of None \<Rightarrow> True | Some g \<Rightarrow> mode g \<noteq> Some ''dvf'')) \<longrightarrow>
        serve C (db\<lparr>dvf_2025_s1_typed := t\<rparr>) req = serve C (db\<lparr>dvf_2025_s1_typed := t'\<rparr>) req)
   \<and> ((case fi of None \<Rightarrow> True | Some g \<Rightarrow> mode g = None \<or> mode g = Some ''none'') \<longrightarrow>
        couts_foncier (bilan_couts (payload_bilan (bilan C t pl pj fi s rs p))) = Some 0)"
proof -
  let ?rc = "computeRevenusEtCoutsHorsFoncier C (computeEtudeArchi C s rs pj) p"
  have a: "couts_foncier (bilan_couts (payload_bilan (bilan C t pl pj (Some f) s rs p)))
        = round_js (Some v) 0
      \<and> couts_cout_total (bilan_couts (payload_bilan (bilan C t pl pj (Some f) s rs p)))
        = round_js (Some (cout_total_hors_foncier_brut ?rc + v)) 0
      \<and> montant (bilan_marge (payload_bilan (bilan C t pl pj (Some f) s rs p)))
        = round_js (Some (ca_total_brut ?rc - (cout_total_hors_foncier_brut ?rc + v))) 0
      \<and> fd_mode (bilan_foncier_detail (payload_bilan (bilan C t pl pj (Some f) s rs p)))
        = ''saisi''"
    if m: "mode f = Some ''saisi''"
      and n: "safeNumber C (valeur_terrain_saisi f) None = Some v" and v: "0 < v"
  proof -
    from m have o: "case Some f of None \<Rightarrow> True | Some f \<Rightarrow> mode f \<noteq> Some ''dvf''" by simp
    show ?thesis
      unfolding bilan_other_mode [OF o] Let_def payload_fields passeFoncierEtMarge_def
        option.case cfm_saisi [OF m n v]
      by simp
  qed
  have b: "couts_foncier (bilan_couts (payload_bilan (bilan C t pl pj (Some f) s rs p))) = Some 0"
    if m: "mode f = Some ''saisi''"
      and v: "safeNumber C (valeur_terrain_saisi f) None = None
            \<or> (\<exists>v. safeNumber C (valeur_terrain_saisi f) None = Some v \<and> v \<le> 0)"
  proof -
    from m have o: "case Some f of None \<Rightarrow> True | Some f \<Rightarrow> mode f \<noteq> Some ''dvf''" by simp
    have z: "case Some f of
             None \<Rightarrow> True
           | Some f \<Rightarrow>
               mode f \<noteq> Some ''saisi''
               \<or> (case safeNumber C (valeur_terrain_saisi f) None of
                     None \<Rightarrow> True
                   | Some v \<Rightarrow> v \<le> 0)"
      using v by auto
    show ?thesis
      unfolding bilan_other_mode [OF o] Let_def
      by (simp add: passeFoncierEtMarge_def cfm_zero(1) [OF z])
  qed
  have c: "bilan C t pl pj fi s rs p = bilan C t' pl pj fi s rs p
        \<and> bilan_dvf_info (payload_bilan (bilan C t pl pj fi s rs p)) = None"
    if o: "case fi of None \<Rightarrow> True | Some g \<Rightarrow> mode g \<noteq> Some ''dvf''"
    unfolding bilan_other_mode [OF o] Let_def by simp
  have d: "serve C (db\<lparr>dvf_2025_s1_typed := t\<rparr>) req = serve C (db\<lparr>dvf_2025_s1_typed := t'\<rparr>) req"
    if "case body req of
          None \<Rightarrow> True
        | Some b \<Rightarrow> (case foncier b of None \<Rightarrow> True | Some g \<Rightarrow> mode g \<noteq> Some ''dvf'')"
    using that by (rule serve_dvf_independent)
  have e: "couts_foncier (bilan_couts (payload_bilan (bilan C t pl pj fi s rs p))) = Some 0"
    if n: "case fi of None \<Rightarrow> True | Some g \<Rightarrow> mode g = None \<or> mode g = Some ''none''"
  proof -
    from n have o: "case fi of None \<Rightarrow> True | Some g \<Rightarrow> mode g \<noteq> Some ''dvf''"
      by (cases fi) auto
    have z: "case Some (case fi of
                          Some f \<Rightarrow> f
                        | None \<Rightarrow> \<lparr>mode = Some ''none'', valeur_terrain_saisi = None\<rparr>) of
             None \<Rightarrow> True
           | Some f \<Rightarrow>
               mode f \<noteq> Some ''saisi''
               \<or> (case safeNumber C (valeur_terrain_saisi f) None of
                     None \<Rightarrow> True
                   | Some v \<Rightarrow> v \<le> 0)"
      using n by (cases fi) auto
    show ?thesis
      unfolding bilan_other_mode [OF o] Let_def
      by (simp add: passeFoncierEtMarge_def cfm_zero(1) [OF z])
  qed
  from a b c d e show ?thesis by blast
qed

theorem declared_mode_witness:
  "mode example_declared = Some ''saisi''
   \<and> safeNumber no_coercion (valeur_terrain_saisi example_declared) None = Some (20000004 / 10)
   \<and> (0::rat) < 20000004 / 10
   \<and> couts_foncier
        (bilan_couts
           (payload_bilan
              (bilan no_coercion (Data example_table30) example_plu example_projet
                 (Some example_declared) 500 (Some example_ruleset) example_profil)))
       = Some 2000000
   \<and> couts_cout_total
        (bilan_couts
           (payload_bilan
              (bilan no_coercion (Data example_table30) example_plu example_projet
                 (Some example_declared) 500 (Some example_ruleset) example_profil)))
       = Some 6175625
   \<and> bilan no_coercion (Data example_table30) example_plu example_projet
        (Some example_declared) 500 (Some example_ruleset) example_profil
       = bilan no_coercion Thrown example_plu example_projet
           (Some example_declared) 500 (Some example_ruleset) example_profil
   \<and> serve no_coercion
        ((example_tables (Data []))\<lparr>dvf_2025_s1_typed := Data example_table30\<rparr>)
        (example_request (JNum 500) (Some example_declared))
       = serve no_coercion
           ((example_tables (Data []))\<lparr>dvf_2025_s1_typed := Thrown\<rparr>)
           (example_request (JNum 500) (Some example_declared))
   \<and> couts_foncier
        (bilan_couts
           (payload_bilan
              (bilan no_coercion (Data example_table30) example_plu example_projet
                 None 500 (Some example_ruleset) example_profil)))
       = Some 0"
proof -
  have m: "mode example_declared = Some ''saisi''"
    by (simp add: example_declared_def)
  have n: "safeNumber no_coercion (valeur_terrain_saisi example_declared) None
           = Some (20000004 / 10)"
    by (simp add: example_declared_def)
  have v: "(0::rat) < 20000004 / 10"
    by simp
  have rc: "cout_total_hors_foncier_brut
              (computeRevenusEtCoutsHorsFoncier no_coercion
                 (computeEtudeArchi no_coercion 500 (Some example_ruleset) example_projet)
                 example_profil) = 4175625"
    by (simp add: example_revenus_couts example_etude)
  have b: "case body (example_request (JNum 500) (Some example_declared)) of
             None \<Rightarrow> True
           | Some b \<Rightarrow> (case foncier b of None \<Rightarrow> True | Some g \<Rightarrow> mode g \<noteq> Some ''dvf'')"
    by (simp add: example_request_def example_declared_def)
  note t = declared_mode
             [where C = no_coercion and f = example_declared and v = "20000004 / 10"
                and t = "Data example_table30" and t' = Thrown and pl = example_plu
                and pj = example_projet and s = 500 and rs = "Some example_ruleset"
                and p = example_profil and db = "example_tables (Data [])"
                and req = "example_request (JNum 500) (Some example_declared)"]
  note t1 = t [where fi = "Some example_declared"]
  note t2 = t [where fi = None]
  have c1: "couts_foncier
        (bilan_couts
           (payload_bilan
              (bilan no_coercion (Data example_table30) example_plu example_projet
                 (Some example_declared) 500 (Some example_ruleset) example_profil)))
       = Some 2000000"
    using t1 [THEN conjunct1] m n v by (simp add: math_round_def)
  have c2: "couts_cout_total
        (bilan_couts
           (payload_bilan
              (bilan no_coercion (Data example_table30) example_plu example_projet
                 (Some example_declared) 500 (Some example_ruleset) example_profil)))
       = Some 6175625"
    using t1 [THEN conjunct1] m n v by (simp add: rc math_round_def)
  have c3: "bilan no_coercion (Data example_table30) example_plu example_projet
        (Some example_declared) 500 (Some example_ruleset) example_profil
       = bilan no_coercion Thrown example_plu example_projet
           (Some example_declared) 500 (Some example_ruleset) example_profil"
    using t1 [THEN conjunct2, THEN conjunct2, THEN conjunct1] m by simp
  have c4: "serve no_coercion
        ((example_tables (Data []))\<lparr>dvf_2025_s1_typed := Data example_table30\<rparr>)
        (example_request (JNum 500) (Some example_declared))
       = serve no_coercion
           ((example_tables (Data []))\<lparr>dvf_2025_s1_typed := Thrown\<rparr>)
           (example_request (JNum 500) (Some example_declared))"
    using t1 [THEN conjunct2, THEN conjunct2, THEN conjunct2, THEN conjunct1] b by blast
  have c5: "couts_foncier
        (bilan_couts
           (payload_bilan
              (bilan no_coercion (Data example_table30) example_plu example_projet
                 None 500 (Some example_ruleset) example_profil)))
       = Some 0"
    using t2 [THEN conjunct2, THEN conjunct2, THEN conjunct2, THEN conjunct2] by simp
  show ?thesis
    by (intro conjI) (rule m n v c1 c2 c3 c4 c5)+
qed

text \<open>
  With 29 surviving samples the response of the mode of the transactions records the
  mode \<^verbatim>\<open>saisi\<close>, not a residual mode.
\<close>

theorem market_fallback_mode_counterexample:
  "(case serve no_coercion (example_tables (Data example_table29))
           (example_request (JNum 500) (Some example_dvf)) of
      Success P \<Rightarrow>
        fd_mode (bilan_foncier_detail (payload_bilan P)) = ''saisi''
        \<and> (case bilan_dvf_info (payload_bilan P) of
              Some info \<Rightarrow>
                di_meta info = Dvf_not_enough_samples 29
                \<and> fallback_mode info = Some ''residuel_from_marge''
            | None \<Rightarrow> False)
    | _ \<Rightarrow> False)"
  unfolding serve_example by code_simp

text \<open>
  Claim C1, as the program has it. When the value from the transactions is asked for,
  it is unresolved exactly when the query throws or fails or fewer than 30 ratios
  survive. The mode recorded in the detail of the land is \<^verbatim>\<open>saisi\<close> whether
  the value was resolved or not; the fallback is recorded in the information on the
  transactions: the mark \<^verbatim>\<open>residuel_from_marge\<close> is there exactly when the
  value is unresolved, with a reason that is not \<^verbatim>\<open>ok\<close>, no estimated value
  and the rounded residual value; the reason \<^verbatim>\<open>ok\<close> and the estimated value
  are there exactly when it is resolved. In the fallback the land cost is the rounded
  residual value, or 0 when that is negative; a resolved positive value is the land
  cost.
\<close>

theorem market_fallback_recorded:
  "mode f = Some ''dvf'' \<longrightarrow>
     (let est = estimateFoncierFromDvfByCommune C t (commune_insee pl) s;
          B = payload_bilan (bilan C t pl pj (Some f) s rs p)
      in (valeur_terrain est = None \<longleftrightarrow>
            (t = Thrown \<or> t = Errored
             \<or> (\<exists>table. t = Data table
                   \<and> length (collectRatios C (dvf_query (depPrefixOf (commune_insee pl)) table) [])
                       < 30)))
         \<and> fd_mode (bilan_foncier_detail B) = ''saisi''
         \<and> (\<exists>info. bilan_dvf_info B = Some info
               \<and> di_meta info = meta est
               \<and> (reason (di_meta info) = ''ok'' \<longleftrightarrow> valeur_terrain est \<noteq> None)
               \<and> (fallback_mode info = Some ''residuel_from_marge'' \<longleftrightarrow> valeur_terrain est = None)
               \<and> (fallback_mode info = None \<longleftrightarrow> valeur_terrain est \<noteq> None)
               \<and> valeur_terrain_estimee info = valeur_terrain est
               \<and> used_for_foncier info
               \<and> (valeur_terrain est = None \<longrightarrow>
                    valeur_terrain_residuelle_utilisee info
                    = valeur_residuelle_terrain_theorique B))
         \<and> (valeur_terrain est = None \<longrightarrow>
              (\<exists>r. valeur_residuelle_terrain_theorique B = Some r
                 \<and> couts_foncier (bilan_couts B) = Some (max 0 r)))
         \<and> (\<forall>vt. valeur_terrain est = Some vt \<and> 0 < vt \<longrightarrow>
              couts_foncier (bilan_couts B) = round_js (Some vt) 0))"
proof
  assume m: "mode f = Some ''dvf''"
  let ?est = "estimateFoncierFromDvfByCommune C t (commune_insee pl) s"
  let ?B = "payload_bilan (bilan C t pl pj (Some f) s rs p)"
  let ?rc = "computeRevenusEtCoutsHorsFoncier C (computeEtudeArchi C s rs pj) p"
  have u: "valeur_terrain ?est = None \<longleftrightarrow>
            (t = Thrown \<or> t = Errored
             \<or> (\<exists>table. t = Data table
                   \<and> length (collectRatios C (dvf_query (depPrefixOf (commune_insee pl)) table) [])
                       < 30))"
    by (rule estimate_unresolved)
  have rest: "fd_mode (bilan_foncier_detail ?B) = ''saisi''
         \<and> (\<exists>info. bilan_dvf_info ?B = Some info
               \<and> di_meta info = meta ?est
               \<and> (reason (di_meta info) = ''ok'' \<longleftrightarrow> valeur_terrain ?est \<noteq> None)
               \<and> (fallback_mode info = Some ''residuel_from_marge'' \<longleftrightarrow> valeur_terrain ?est = None)
               \<and> (fallback_mode info = None \<longleftrightarrow> valeur_terrain ?est \<noteq> None)
               \<and> valeur_terrain_estimee info = valeur_terrain ?est
               \<and> used_for_foncier info
               \<and> (valeur_terrain ?est = None \<longrightarrow>
                    valeur_terrain_residuelle_utilisee info
                    = valeur_residuelle_terrain_theorique ?B))
         \<and> (valeur_terrain ?est = None \<longrightarrow>
              (\<exists>r. valeur_residuelle_terrain_theorique ?B = Some r
                 \<and> couts_foncier (bilan_couts ?B) = Some (max 0 r)))
         \<and> (\<forall>vt. valeur_terrain ?est = Some vt \<and> 0 < vt \<longrightarrow>
              couts_foncier (bilan_couts ?B) = round_js (Some vt) 0)"
  proof (cases "valeur_terrain ?est")
    case None
    define r where "r = orElse (valeur_terrain_residuelle (passeFoncierEtMarge C ?rc s p f)) 0"
    note pf = passe_after_fallback [OF r_def]
    have md: "fd_mode (foncier_detail
                (passeFoncierEtMarge C ?rc s p
                   \<lparr>mode = Some ''saisi'',
                    valeur_terrain_saisi = Some (JNum (if r > 0 then r else 0))\<rparr>)) = ''saisi''"
      unfolding passeFoncierEtMarge_def by (rule cfm_mode) simp_all
    have ok: "reason (meta ?est) \<noteq> ''ok''"
      using estimate_reason [of C t "commune_insee pl" s] None by simp
    show ?thesis
      unfolding bilan_dvf_fallback [OF m None] Let_def r_def [symmetric] payload_fields
      using None ok by (simp add: pf md)
  next
    case (Some vt)
    have md: "fd_mode (foncier_detail
                (passeFoncierEtMarge C ?rc s p
                   \<lparr>mode = Some ''saisi'', valeur_terrain_saisi = Some (JNum vt)\<rparr>)) = ''saisi''"
      unfolding passeFoncierEtMarge_def by (rule cfm_mode) simp_all
    have ok: "reason (meta ?est) = ''ok''"
      using estimate_reason [of C t "commune_insee pl" s] Some by simp
    have cost: "cout_foncier_effectif
                  (passeFoncierEtMarge C ?rc s p
                     \<lparr>mode = Some ''saisi'', valeur_terrain_saisi = Some (JNum vt)\<rparr>)
                = round_js (Some vt) 0" if "0 < vt"
      unfolding passeFoncierEtMarge_def using that by (intro cfm_saisi) simp_all
    show ?thesis
      unfolding bilan_dvf_resolved [OF m Some] Let_def payload_fields
      using Some ok cost by (simp add: md)
  qed
  from u rest show "let est = ?est; B = ?B
      in (valeur_terrain est = None \<longleftrightarrow>
            (t = Thrown \<or> t = Errored
             \<or> (\<exists>table. t = Data table
                   \<and> length (collectRatios C (dvf_query (depPrefixOf (commune_insee pl)) table) [])
                       < 30)))
         \<and> fd_mode (bilan_foncier_detail B) = ''saisi''
         \<and> (\<exists>info. bilan_dvf_info B = Some info
               \<and> di_meta info = meta est
               \<and> (reason (di_meta info) = ''ok'' \<longleftrightarrow> valeur_terrain est \<noteq> None)
               \<and> (fallback_mode info = Some ''residuel_from_marge'' \<longleftrightarrow> valeur_terrain est = None)
               \<and> (fallback_mode info = None \<longleftrightarrow> valeur_terrain est \<noteq> None)
               \<and> valeur_terrain_estimee info = valeur_terrain est
               \<and> used_for_foncier info
               \<and> (valeur_terrain est = None \<longrightarrow>
                    valeur_terrain_residuelle_utilisee info
                    = valeur_residuelle_terrain_theorique B))
         \<and> (valeur_terrain est = None \<longrightarrow>
              (\<exists>r. valeur_residuelle_terrain_theorique B = Some r
                 \<and> couts_foncier (bilan_couts B) = Some (max 0 r)))
         \<and> (\<forall>vt. valeur_terrain est = Some vt \<and> 0 < vt \<longrightarrow>
              couts_foncier (bilan_couts B) = round_js (Some vt) 0)"
    unfolding Let_def by (rule conjI)
qed

theorem market_fallback_recorded_witness:
  "mode example_dvf = Some ''dvf''
   \<and> valeur_terrain
        (estimateFoncierFromDvfByCommune no_coercion (Data example_table29)
           (commune_insee example_plu) 500) = None
   \<and> fd_mode
        (bilan_foncier_detail
           (payload_bilan
              (bilan no_coercion (Data example_table29) example_plu example_projet
                 (Some example_dvf) 500 (Some example_ruleset) example_profil))) = ''saisi''
   \<and> valeur_residuelle_terrain_theorique
        (payload_bilan
           (bilan no_coercion (Data example_table29) example_plu example_projet
              (Some example_dvf) 500 (Some example_ruleset) example_profil)) = Some 2556375
   \<and> couts_foncier
        (bilan_couts
           (payload_bilan
              (bilan no_coercion (Data example_table29) example_plu example_projet
                 (Some example_dvf) 500 (Some example_ruleset) example_profil))) = Some 2556375
   \<and> valeur_terrain
        (estimateFoncierFromDvfByCommune no_coercion (Data example_table30)
           (commune_insee example_plu) 500) = Some 50000
   \<and> (0::rat) < 50000
   \<and> couts_foncier
        (bilan_couts
           (payload_bilan
              (bilan no_coercion (Data example_table30) example_plu example_projet
                 (Some example_dvf) 500 (Some example_ruleset) example_profil))) = Some 50000"
proof -
  have m: "mode example_dvf = Some ''dvf''"
    by (simp add: example_dvf_def)
  have u29: "valeur_terrain
        (estimateFoncierFromDvfByCommune no_coercion (Data example_table29)
           (commune_insee example_plu) 500) = None"
    by code_simp
  have r29: "valeur_residuelle_terrain_theorique
        (payload_bilan
           (bilan no_coercion (Data example_table29) example_plu example_projet
              (Some example_dvf) 500 (Some example_ruleset) example_profil)) = Some 2556375"
    by code_simp
  have e30: "valeur_terrain
        (estimateFoncierFromDvfByCommune no_coercion (Data example_table30)
           (commune_insee example_plu) 500) = Some 50000"
    by code_simp
  have v: "(0::rat) < 50000"
    by simp
  note t29 = market_fallback_recorded
               [where C = no_coercion and f = example_dvf and t = "Data example_table29"
                  and pl = example_plu and pj = example_projet and s = 500
                  and rs = "Some example_ruleset" and p = example_profil,
                THEN mp, OF m, unfolded Let_def]
  note t30 = market_fallback_recorded
               [where C = no_coercion and f = example_dvf and t = "Data example_table30"
                  and pl = example_plu and pj = example_projet and s = 500
                  and rs = "Some example_ruleset" and p = example_profil,
                THEN mp, OF m, unfolded Let_def]
  have c1: "fd_mode
        (bilan_foncier_detail
           (payload_bilan
              (bilan no_coercion (Data example_table29) example_plu example_projet
                 (Some example_dvf) 500 (Some example_ruleset) example_profil))) = ''saisi''"
    by (rule t29 [THEN conjunct2, THEN conjunct1])
  have c2: "couts_foncier
        (bilan_couts
           (payload_bilan
              (bilan no_coercion (Data example_table29) example_plu example_projet
                 (Some example_dvf) 500 (Some example_ruleset) example_profil))) = Some 2556375"
    using t29 [THEN conjunct2, THEN conjunct2, THEN conjunct2, THEN conjunct1] u29 r29
    by simp
  have c3: "couts_foncier
        (bilan_couts
           (payload_bilan
              (bilan no_coercion (Data example_table30) example_plu example_projet
                 (Some example_dvf) 500 (Some example_ruleset) example_profil))) = Some 50000"
    using t30 [THEN conjunct2, THEN conjunct2, THEN conjunct2, THEN conjunct2] e30 v
    by simp
  show ?thesis
    by (intro conjI) (rule m u29 c1 r29 c2 e30 v c3)+
qed

subsection \<open>Unknown zoning fields and the terrain area\<close>

text \<open>
  Under an empty rule set the street setback is reported as 0 and the rear and lateral
  setbacks as \<^verbatim>\<open>null\<close>.
\<close>

theorem zoning_defaults_counterexample:
  "rue_m (retraits (computeEtudeArchi no_coercion 500 (Some (JObj [])) example_projet)) = Some 0
   \<and> fond_m (retraits (computeEtudeArchi no_coercion 500 (Some (JObj [])) example_projet)) = None
   \<and> lateraux_m (retraits (computeEtudeArchi no_coercion 500 (Some (JObj [])) example_projet))
       = None"
  by (simp add: computeEtudeArchi_def)

lemma safeNumber_unknown:
  "x = None \<or> x = Some JNull \<Longrightarrow> safeNumber C x fb = fb"
  by auto

text \<open>
  Claim C9, as the program has it. A field is unknown when \<open>safeNumber\<close> finds no
  number in it, as for a field that is absent or \<^verbatim>\<open>null\<close>. An unknown footprint
  ratio is replaced by 0.6 and an unknown maximal height by 15 m, which gives 5 levels.
  An unknown footprint cap is no cap: the footprint is the one of the ratio. Unknown
  rear and lateral setbacks are reported as \<^verbatim>\<open>null\<close>.
\<close>

theorem zoning_defaults:
  "(x = None \<or> x = Some JNull \<longrightarrow> safeNumber C x None = None)
   \<and> (safeNumber C (getprop (getprop rs ''emprise_sol'') ''max_ratio'') None = None
        \<and> safeNumber C (getprop (getprop rs ''emprise_sol'') ''max_m2'') None = None \<longrightarrow>
        emprise_autorisee_m2 (computeEtudeArchi C s rs pj) = round_js (Some (s * (6 / 10))) 2)
   \<and> (safeNumber C (getprop (getprop rs ''emprise_sol'') ''max_ratio'') None = None
        \<and> safeNumber C (getprop (getprop rs ''emprise_sol'') ''max_m2'') None = Some c \<longrightarrow>
        emprise_autorisee_m2 (computeEtudeArchi C s rs pj)
        = round_js (Some (min c (s * (6 / 10)))) 2)
   \<and> (safeNumber C (getprop (getprop rs ''emprise_sol'') ''max_ratio'') None = Some r
        \<and> safeNumber C (getprop (getprop rs ''emprise_sol'') ''max_m2'') None = None \<longrightarrow>
        emprise_autorisee_m2 (computeEtudeArchi C s rs pj) = round_js (Some (s * r)) 2)
   \<and> (safeNumber C (getprop (getprop rs ''hauteur'') ''hauteur_max_m'') None = None \<longrightarrow>
        hauteur_max_m (computeEtudeArchi C s rs pj) = 15
        \<and> nb_niveaux_possibles (computeEtudeArchi C s rs pj) = 5)
   \<and> (safeNumber C (getprop (getprop rs ''implantation'') ''retrait_fond_parcelle_m'') None
        = None \<longrightarrow>
        fond_m (retraits (computeEtudeArchi C s rs pj)) = None)
   \<and> (safeNumber C (getprop (getprop rs ''implantation'') ''retrait_lateraux_m'') None = None \<longrightarrow>
        lateraux_m (retraits (computeEtudeArchi C s rs pj)) = None)"
  unfolding computeEtudeArchi_def Let_def
  by (auto simp del: round_js.simps)

theorem zoning_defaults_witness:
  "getprop (getprop (Some (JObj [])) ''emprise_sol'') ''max_ratio'' = None
   \<and> safeNumber no_coercion (getprop (getprop (Some (JObj [])) ''emprise_sol'') ''max_ratio'')
        None = None
   \<and> safeNumber no_coercion (getprop (getprop (Some (JObj [])) ''emprise_sol'') ''max_m2'')
        None = None
   \<and> emprise_autorisee_m2 (computeEtudeArchi no_coercion 500 (Some (JObj [])) example_projet)
       = Some 300
   \<and> safeNumber no_coercion (getprop (getprop (Some (JObj [])) ''hauteur'') ''hauteur_max_m'')
        None = None
   \<and> hauteur_max_m (computeEtudeArchi no_coercion 500 (Some (JObj [])) example_projet) = 15
   \<and> nb_niveaux_possibles (computeEtudeArchi no_coercion 500 (Some (JObj [])) example_projet)
       = 5
   \<and> safeNumber no_coercion
        (getprop (getprop (Some zero_cap_ruleset) ''emprise_sol'') ''max_m2'') None = Some 0
   \<and> emprise_autorisee_m2
        (computeEtudeArchi no_coercion 500 (Some zero_cap_ruleset) example_projet) = Some 0
   \<and> safeNumber no_coercion
        (getprop (getprop (Some example_ruleset) ''emprise_sol'') ''max_ratio'') None
       = Some (6 / 10)
   \<and> emprise_autorisee_m2
        (computeEtudeArchi no_coercion 500 (Some example_ruleset) example_projet) = Some 300
   \<and> fond_m (retraits (computeEtudeArchi no_coercion 500 (Some (JObj [])) example_projet))
       = None
   \<and> lateraux_m (retraits (computeEtudeArchi no_coercion 500 (Some (JObj [])) example_projet))
       = None"
proof -
  have g: "getprop (getprop (Some (JObj [])) ''emprise_sol'') ''max_ratio'' = None"
    by simp
  have u: "safeNumber no_coercion (getprop (getprop (Some (JObj [])) k1) k2) None = None"
    for k1 k2
    by simp
  have z: "safeNumber no_coercion
        (getprop (getprop (Some zero_cap_ruleset) ''emprise_sol'') ''max_m2'') None = Some 0"
      "safeNumber no_coercion
        (getprop (getprop (Some zero_cap_ruleset) ''emprise_sol'') ''max_ratio'') None = None"
    by (simp_all add: zero_cap_ruleset_def)
  have e: "safeNumber no_coercion
        (getprop (getprop (Some example_ruleset) ''emprise_sol'') ''max_ratio'') None
       = Some (6 / 10)"
      "safeNumber no_coercion
        (getprop (getprop (Some example_ruleset) ''emprise_sol'') ''max_m2'') None = None"
    by (simp_all add: example_ruleset_def)
  note t0 = zoning_defaults
              [where C = no_coercion and rs = "Some (JObj [])" and s = 500
                 and pj = example_projet and x = None]
  note tz = zoning_defaults
              [where C = no_coercion and rs = "Some zero_cap_ruleset" and s = 500
                 and pj = example_projet and c = 0]
  note te = zoning_defaults
              [where C = no_coercion and rs = "Some example_ruleset" and s = 500
                 and pj = example_projet and r = "6 / 10"]
  have c1: "emprise_autorisee_m2 (computeEtudeArchi no_coercion 500 (Some (JObj [])) example_projet)
       = Some 300"
    using t0 [THEN conjunct2, THEN conjunct1] u by simp
  have c2: "hauteur_max_m (computeEtudeArchi no_coercion 500 (Some (JObj [])) example_projet) = 15"
    "nb_niveaux_possibles (computeEtudeArchi no_coercion 500 (Some (JObj [])) example_projet) = 5"
    using t0 [THEN conjunct2, THEN conjunct2, THEN conjunct2, THEN conjunct2, THEN conjunct1] u
    by simp_all
  have c3: "emprise_autorisee_m2
        (computeEtudeArchi no_coercion 500 (Some zero_cap_ruleset) example_projet) = Some 0"
    using tz [THEN conjunct2, THEN conjunct2, THEN conjunct1] z by simp
  have c4: "emprise_autorisee_m2
        (computeEtudeArchi no_coercion 500 (Some example_ruleset) example_projet) = Some 300"
    using te [THEN conjunct2, THEN conjunct2, THEN conjunct2, THEN conjunct1] e by simp
  have c5: "fond_m (retraits (computeEtudeArchi no_coercion 500 (Some (JObj [])) example_projet))
       = None"
    using t0 [THEN conjunct2, THEN conjunct2, THEN conjunct2, THEN conjunct2, THEN conjunct2,
              THEN conjunct1] u
    by simp
  have c6: "lateraux_m (retraits (computeEtudeArchi no_coercion 500 (Some (JObj [])) example_projet))
       = None"
    using t0 [THEN conjunct2, THEN conjunct2, THEN conjunct2, THEN conjunct2, THEN conjunct2,
              THEN conjunct2] u
    by simp
  show ?thesis
    by (intro conjI) (rule g u c1 c2 z e c3 c4 c5 c6)+
qed

text \<open>
  The terrain area. An area found in the register of parcels is positive, and a request
  whose area is unresolved is answered by the error of status 400.
\<close>

lemma find_Some_holds: "find P xs = Some y \<Longrightarrow> P y"
  by (induction xs) (auto split: if_splits)

lemma fetchSurfaceFromCadastre_positive:
  assumes "fetchSurfaceFromCadastre C cadastre pc = Inr (Some x)"
  shows "0 < x"
proof -
  have pos: "0 < x"
    if "find (\<lambda>c. case c of None \<Rightarrow> False | Some n \<Rightarrow> n \<noteq> 0 \<and> n > 0) cs = Some (Some x)"
    for cs :: "rat option list"
    using find_Some_holds [OF that] by simp
  have none: "False"
    if "find (\<lambda>c. case c of None \<Rightarrow> False | Some n \<Rightarrow> n \<noteq> 0 \<and> n > 0) cs = Some None"
    for cs :: "rat option list"
    using find_Some_holds [OF that] by simp
  from assms show ?thesis
    unfolding fetchSurfaceFromCadastre_def Let_def
    by (auto split: option.splits if_splits reply.splits dest: pos none)
qed

lemma unresolved_surface_rejected:
  assumes "http_method req = ''POST''"
    and "body req = Some b"
    and "parcel b = Some pc" "plu b = Some pl" "projet b = Some pj"
    and "resolveSurface C (cadastre_parcelles db) pc = Inr None"
  shows "serve C db req = Surface_unknown"
  using assms by (simp add: serve_def)

lemma resolveSurface_unresolved:
  "resolveSurface C cadastre pc = Inr None \<longleftrightarrow>
     safeNumber C (parcel_surface_terrain_m2 pc) None = None
     \<and> (parcel_id pc = None \<or> parcel_id pc = Some []
         \<or> fetchSurfaceFromCadastre C cadastre pc = Inr None)"
  by (auto simp: resolveSurface_def split: option.splits)

text \<open>
  Claim C3 wants a terrain area that is not positive rejected as an invalid input. The
  handler answers a request whose terrain area is -100 with status 200 and a footprint of
  -60 m2, a floor area of -255 m2 and a revenue of -1 530 000; with the area 0 it answers
  with status 200 as well.
\<close>

theorem terrain_area_not_rejected:
  "status (serve no_coercion (example_tables (Data [])) (example_request (JNum (- 100)) None))
     = 200
   \<and> (case serve no_coercion (example_tables (Data [])) (example_request (JNum (- 100)) None) of
        Success P \<Rightarrow>
          emprise_autorisee_m2 (payload_etude_archi P) = Some (- 60)
          \<and> sdp_totale_potentielle_m2 (payload_etude_archi P) = Some (- 255)
          \<and> ca_total (bilan_ventes (payload_bilan P)) = Some (- 1530000)
      | _ \<Rightarrow> False)
   \<and> status (serve no_coercion (example_tables (Data [])) (example_request (JNum 0) None)) = 200
   \<and> (case serve no_coercion (example_tables (Data [])) (example_request (JNum 0) None) of
        Success P \<Rightarrow>
          emprise_autorisee_m2 (payload_etude_archi P) = Some 0
          \<and> sdp_totale_potentielle_m2 (payload_etude_archi P) = Some 0
      | _ \<Rightarrow> False)"
  unfolding serve_example by code_simp

subsection \<open>The land cost is never negative\<close>

lemma serve_success:
  assumes "serve C db req = Success P"
  shows "\<exists>b pl pj s rs p.
           body req = Some b
           \<and> P = bilan C (dvf_2025_s1_typed db) pl pj (foncier b) s rs p"
  using assms unfolding serve_def Let_def
  by (auto split: if_splits option.splits sum.splits) blast+

lemma resolveSurface_supplied:
  assumes "safeNumber C (parcel_surface_terrain_m2 pc) None = Some a"
  shows "resolveSurface C cadastre pc = Inr (Some a)"
  using assms by (simp add: resolveSurface_def)

lemma bilan_cout_nonneg:
  "\<exists>c. couts_foncier (bilan_couts (payload_bilan (bilan C t pl pj fi s rs p))) = Some c
       \<and> 0 \<le> c"
proof -
  obtain fe info where b:
    "bilan C t pl pj fi s rs p =
       responsePayload (computeEtudeArchi C s rs pj)
         (computeRevenusEtCoutsHorsFoncier C (computeEtudeArchi C s rs pj) p)
         (passeFoncierEtMarge C
            (computeRevenusEtCoutsHorsFoncier C (computeEtudeArchi C s rs pj) p) s p fe)
         info"
    using bilan_is_passe by blast
  show ?thesis
    unfolding b by (simp add: passeFoncierEtMarge_def cfm_cout_nonneg)
qed

text \<open>
  Claim C10. The effective land cost of the bilan is a number that is not negative, for
  every input of the bilan and in every response of success. In the declared mode a
  declared value that is missing or not positive gives a land cost of 0. When the value
  from the transactions is asked for and there is none, the land cost is the rounded
  residual value, or 0 when that is negative.
\<close>

theorem land_cost_nonneg:
  "(\<exists>c. couts_foncier (bilan_couts (payload_bilan (bilan C t pl pj fi s rs p))) = Some c
        \<and> 0 \<le> c)
   \<and> (\<exists>c. cout_foncier_effectif (computeFoncierEtMarge C rv cs sdp st p fi) = Some c \<and> 0 \<le> c)
   \<and> (mode f = Some ''saisi''
        \<and> (safeNumber C (valeur_terrain_saisi f) None = None
            \<or> (\<exists>v. safeNumber C (valeur_terrain_saisi f) None = Some v \<and> v \<le> 0)) \<longrightarrow>
        couts_foncier (bilan_couts (payload_bilan (bilan C t pl pj (Some f) s rs p))) = Some 0)
   \<and> (mode f = Some ''dvf''
        \<and> valeur_terrain (estimateFoncierFromDvfByCommune C t (commune_insee pl) s) = None \<longrightarrow>
        (\<exists>r. valeur_residuelle_terrain_theorique
                (payload_bilan (bilan C t pl pj (Some f) s rs p)) = Some r
           \<and> couts_foncier (bilan_couts (payload_bilan (bilan C t pl pj (Some f) s rs p)))
               = Some (max 0 r)))
   \<and> (serve C db req = Success P \<longrightarrow>
        (\<exists>c. couts_foncier (bilan_couts (payload_bilan P)) = Some c \<and> 0 \<le> c))"
proof -
  obtain fe info where b:
    "bilan C t pl pj fi s rs p =
       responsePayload (computeEtudeArchi C s rs pj)
         (computeRevenusEtCoutsHorsFoncier C (computeEtudeArchi C s rs pj) p)
         (passeFoncierEtMarge C
            (computeRevenusEtCoutsHorsFoncier C (computeEtudeArchi C s rs pj) p) s p fe)
         info"
    using bilan_is_passe by blast
  have a: "\<exists>c. couts_foncier (bilan_couts (payload_bilan (bilan C t pl pj fi s rs p))) = Some c
        \<and> 0 \<le> c"
    unfolding b by (simp add: passeFoncierEtMarge_def cfm_cout_nonneg)
  have c: "couts_foncier (bilan_couts (payload_bilan (bilan C t pl pj (Some f) s rs p))) = Some 0"
    if m: "mode f = Some ''saisi''"
      and v: "safeNumber C (valeur_terrain_saisi f) None = None
            \<or> (\<exists>v. safeNumber C (valeur_terrain_saisi f) None = Some v \<and> v \<le> 0)"
  proof -
    from m have o: "case Some f of None \<Rightarrow> True | Some f \<Rightarrow> mode f \<noteq> Some ''dvf''" by simp
    have z: "case Some f of
             None \<Rightarrow> True
           | Some f \<Rightarrow>
               mode f \<noteq> Some ''saisi''
               \<or> (case safeNumber C (valeur_terrain_saisi f) None of
                     None \<Rightarrow> True
                   | Some v \<Rightarrow> v \<le> 0)"
      using v by auto
    show ?thesis
      unfolding bilan_other_mode [OF o] Let_def
      by (simp add: passeFoncierEtMarge_def cfm_zero(1) [OF z])
  qed
  have d: "\<exists>r. valeur_residuelle_terrain_theorique
                (payload_bilan (bilan C t pl pj (Some f) s rs p)) = Some r
           \<and> couts_foncier (bilan_couts (payload_bilan (bilan C t pl pj (Some f) s rs p)))
               = Some (max 0 r)"
    if m: "mode f = Some ''dvf''"
      and u: "valeur_terrain (estimateFoncierFromDvfByCommune C t (commune_insee pl) s) = None"
    unfolding bilan_dvf_fallback [OF m u] Let_def
    by (simp add: passe_after_fallback [OF refl])
  have g: "\<exists>c. couts_foncier (bilan_couts (payload_bilan P)) = Some c \<and> 0 \<le> c"
    if "serve C db req = Success P"
    using serve_success [OF that] bilan_cout_nonneg by blast
  from a c d g show ?thesis by (simp add: cfm_cout_nonneg)
qed

theorem land_cost_nonneg_witness:
  "serve no_coercion (example_tables (Data []))
     (example_request (JNum 500)
        (Some \<lparr>mode = Some ''saisi'', valeur_terrain_saisi = Some (JNum (- 5))\<rparr>))
   = Success
       (bilan no_coercion (Data []) example_plu example_projet
          (Some \<lparr>mode = Some ''saisi'', valeur_terrain_saisi = Some (JNum (- 5))\<rparr>) 500
          (Some example_ruleset) example_profil)
   \<and> mode \<lparr>mode = Some ''saisi'', valeur_terrain_saisi = Some (JNum (- 5))\<rparr> = Some ''saisi''
   \<and> safeNumber no_coercion
        (valeur_terrain_saisi \<lparr>mode = Some ''saisi'', valeur_terrain_saisi = Some (JNum (- 5))\<rparr>)
        None = Some (- 5)
   \<and> couts_foncier
        (bilan_couts
           (payload_bilan
              (bilan no_coercion (Data []) example_plu example_projet
                 (Some \<lparr>mode = Some ''saisi'', valeur_terrain_saisi = Some (JNum (- 5))\<rparr>) 500
                 (Some example_ruleset) example_profil))) = Some 0
   \<and> valeur_terrain
        (estimateFoncierFromDvfByCommune no_coercion (Data []) (commune_insee example_plu) 500)
       = None
   \<and> valeur_residuelle_terrain_theorique
        (payload_bilan
           (bilan no_coercion (Data []) example_plu example_projet
              (Some \<lparr>mode = Some ''dvf'', valeur_terrain_saisi = None\<rparr>) 500
              (Some example_ruleset) low_price_profil)) = Some (- 2143275)
   \<and> couts_foncier
        (bilan_couts
           (payload_bilan
              (bilan no_coercion (Data []) example_plu example_projet
                 (Some \<lparr>mode = Some ''dvf'', valeur_terrain_saisi = None\<rparr>) 500
                 (Some example_ruleset) low_price_profil))) = Some 0"
proof -
  have a: "safeNumber no_coercion
        (valeur_terrain_saisi \<lparr>mode = Some ''saisi'', valeur_terrain_saisi = Some (JNum (- 5))\<rparr>)
        None = Some (- 5)"
    by simp
  have u: "valeur_terrain
        (estimateFoncierFromDvfByCommune no_coercion (Data []) (commune_insee example_plu) 500)
       = None"
    by code_simp
  have r: "valeur_residuelle_terrain_theorique
        (payload_bilan
           (bilan no_coercion (Data []) example_plu example_projet
              (Some \<lparr>mode = Some ''dvf'', valeur_terrain_saisi = None\<rparr>) 500
              (Some example_ruleset) low_price_profil)) = Some (- 2143275)"
    by code_simp
  note t1 = land_cost_nonneg
              [where C = no_coercion and t = "Data []" and pl = example_plu
                 and pj = example_projet and s = 500 and rs = "Some example_ruleset"
                 and p = example_profil
                 and f = "\<lparr>mode = Some ''saisi'', valeur_terrain_saisi = Some (JNum (- 5))\<rparr>",
               THEN conjunct2, THEN conjunct2, THEN conjunct1]
  note t2 = land_cost_nonneg
              [where C = no_coercion and t = "Data []" and pl = example_plu
                 and pj = example_projet and s = 500 and rs = "Some example_ruleset"
                 and p = low_price_profil
                 and f = "\<lparr>mode = Some ''dvf'', valeur_terrain_saisi = None\<rparr>",
               THEN conjunct2, THEN conjunct2, THEN conjunct2]
  have c1: "couts_foncier
        (bilan_couts
           (payload_bilan
              (bilan no_coercion (Data []) example_plu example_projet
                 (Some \<lparr>mode = Some ''saisi'', valeur_terrain_saisi = Some (JNum (- 5))\<rparr>) 500
                 (Some example_ruleset) example_profil))) = Some 0"
    using t1 a by simp
  have c2: "couts_foncier
        (bilan_couts
           (payload_bilan
              (bilan no_coercion (Data []) example_plu example_projet
                 (Some \<lparr>mode = Some ''dvf'', valeur_terrain_saisi = None\<rparr>) 500
                 (Some example_ruleset) low_price_profil))) = Some 0"
    using t2 u r by simp
  from a u r c1 c2 show ?thesis by (simp add: serve_example)
qed

end
